theory Spec2Isabelle
  imports Complex_Main "HOL-Library.Multiset"
begin

section \<open>Session store (frontend/src/store.js)\<close>

text \<open>
  The zustand store created in \<^verbatim>\<open>store.js\<close> holds two data fields, \<^verbatim>\<open>user\<close> and
  \<^verbatim>\<open>token\<close>, both initially \<^verbatim>\<open>null\<close>, next to the two actions \<^verbatim>\<open>setUser\<close> and
  \<^verbatim>\<open>logout\<close>.  A JavaScript value that may be \<^verbatim>\<open>null\<close> is an \<open>option\<close>, with
  \<open>None\<close> for \<^verbatim>\<open>null\<close>.  zustand's \<^verbatim>\<open>set(partial)\<close> merges the partial object into
  the current state, which is a record update here.
\<close>

record ('u, 't) store_state =
  user :: "'u option"
  token :: "'t option"

definition store_init :: "('u, 't) store_state" where
  "store_init = \<lparr>user = None, token = None\<rparr>"

definition setUser :: "'u option \<Rightarrow> 't option \<Rightarrow> ('u, 't) store_state \<Rightarrow> ('u, 't) store_state" where
  "setUser u t s = s\<lparr>user := u, token := t\<rparr>"

definition logout :: "('u, 't) store_state \<Rightarrow> ('u, 't) store_state" where
  "logout s = s\<lparr>user := None, token := None\<rparr>"


section \<open>Conversation context of the AI agent (AIAgentSystem.js)\<close>

text \<open>
  \<^verbatim>\<open>conversationContext\<close> is an array of entries \<^verbatim>\<open>{type, data, timestamp}\<close>.  The
  timestamp is read from the clock (\<^verbatim>\<open>new Date().toISOString()\<close>), so it is an argument
  of the model.  What an entry carries as \<^verbatim>\<open>data\<close> depends on the caller.
\<close>

record user_message =
  um_id :: string
  um_content :: "string option"

record ai_message =
  am_content :: string
  am_message_type :: string
  am_category :: string
  am_priority :: string
  am_intent :: string
  am_userMessageId :: string

datatype ctx_data =
    GuidanceData string string
  | UserMessageData user_message
  | AiResponseData ai_message

record ctx_entry =
  ce_type :: string
  ce_data :: ctx_data
  ce_timestamp :: string

text \<open>\<^verbatim>\<open>xs.slice(-k)\<close>: the last \<open>k\<close> elements, or all of them when there are fewer.\<close>

definition slice_last :: "nat \<Rightarrow> 'a list \<Rightarrow> 'a list" where
  "slice_last k xs = drop (length xs - k) xs"

definition addToContext :: "string \<Rightarrow> ctx_data \<Rightarrow> string \<Rightarrow> ctx_entry list \<Rightarrow> ctx_entry list" where
  "addToContext ty d now ctx =
     (let pushed = ctx @ [\<lparr>ce_type = ty, ce_data = d, ce_timestamp = now\<rparr>]
      in if length pushed > 50 then slice_last 50 pushed else pushed)"

text \<open>\<^verbatim>\<open>String.prototype.includes\<close> and \<^verbatim>\<open>toLowerCase\<close> on ASCII text.\<close>

fun is_prefix :: "string \<Rightarrow> string \<Rightarrow> bool" where
  "is_prefix [] ys = True"
| "is_prefix (x # xs) [] = False"
| "is_prefix (x # xs) (y # ys) = (x = y \<and> is_prefix xs ys)"

fun str_includes :: "string \<Rightarrow> string \<Rightarrow> bool" where
  "str_includes [] sub = (sub = [])"
| "str_includes (c # cs) sub = (is_prefix sub (c # cs) \<or> str_includes cs sub)"

definition lower_char :: "char \<Rightarrow> char" where
  "lower_char c =
     (let n = of_char c :: nat in if 65 \<le> n \<and> n \<le> 90 then char_of (n + 32) else c)"

definition toLowerCase :: "string \<Rightarrow> string" where
  "toLowerCase s = map lower_char s"

definition analyzeIntent :: "string \<Rightarrow> string" where
  "analyzeIntent content =
     (let lowerContent = toLowerCase content in
      if str_includes lowerContent ''price'' \<or> str_includes lowerContent ''cost'' then ''price_inquiry''
      else if str_includes lowerContent ''market'' \<or> str_includes lowerContent ''trend'' then ''market_inquiry''
      else if str_includes lowerContent ''logistics'' \<or> str_includes lowerContent ''delivery'' then ''logistics_inquiry''
      else if str_includes lowerContent ''help'' \<or> str_includes lowerContent ''advice'' then ''help_request''
      else if str_includes lowerContent ''status'' \<or> str_includes lowerContent ''progress'' then ''status_inquiry''
      else ''general_inquiry'')"

text \<open>
  \<^verbatim>\<open>generateResponse\<close>: the text of the answer is assembled from the deal group and the
  knowledge base by one generator per intent; the generators are the parameter \<open>gen\<close>
  (from intent to text).  The priority is the one the \<^verbatim>\<open>switch\<close> assigns.
\<close>

definition response_priority :: "string \<Rightarrow> string" where
  "response_priority intent =
     (if intent = ''price_inquiry'' then ''medium''
      else if intent = ''market_inquiry'' then ''medium''
      else if intent = ''logistics_inquiry'' then ''medium''
      else if intent = ''help_request'' then ''high''
      else if intent = ''status_inquiry'' then ''low''
      else ''low'')"

definition generateResponse :: "(string \<Rightarrow> string) \<Rightarrow> string \<Rightarrow> user_message \<Rightarrow> ai_message" where
  "generateResponse gen intent userMessage =
     \<lparr>am_content = gen intent, am_message_type = ''ai_response'', am_category = ''ai_guidance'',
      am_priority = response_priority intent, am_intent = intent,
      am_userMessageId = um_id userMessage\<rparr>"

text \<open>
  \<^verbatim>\<open>processUserMessage\<close> records the user's message, classifies it, answers and records
  the answer.  A message without \<^verbatim>\<open>content\<close> makes \<^verbatim>\<open>content.toLowerCase()\<close> throw a
  TypeError after the first entry has been recorded.
\<close>

datatype agent_error = AgentTypeError

definition processUserMessage ::
  "(string \<Rightarrow> string) \<Rightarrow> user_message \<Rightarrow> string \<Rightarrow> string \<Rightarrow> ctx_entry list
     \<Rightarrow> (agent_error + ai_message) \<times> ctx_entry list" where
  "processUserMessage gen userMessage now1 now2 ctx =
     (let ctx1 = addToContext ''user_message'' (UserMessageData userMessage) now1 ctx in
      case um_content userMessage of
        None \<Rightarrow> (Inl AgentTypeError, ctx1)
      | Some content \<Rightarrow>
          (let intent = analyzeIntent content;
               response = generateResponse gen intent userMessage
           in (Inr response, addToContext ''ai_response'' (AiResponseData response) now2 ctx1)))"

text \<open>
  \<^verbatim>\<open>generateStageGuidance\<close> returns at once for a stage without templates; otherwise it
  emits a message built from a randomly chosen template (the parameter \<open>content\<close>) and
  records it.
\<close>

definition stageGuidance_stages :: "string list" where
  "stageGuidance_stages = [''NEGOTIATING'', ''ACCEPTED'', ''IN_TRANSIT'', ''DELIVERED'']"

definition generateStageGuidance :: "string \<Rightarrow> string \<Rightarrow> string \<Rightarrow> ctx_entry list \<Rightarrow> ctx_entry list" where
  "generateStageGuidance stage content now ctx =
     (if stage \<in> set stageGuidance_stages
      then addToContext ''stage_guidance'' (GuidanceData stage content) now ctx
      else ctx)"

text \<open>
  The operations of an \<^verbatim>\<open>AIAgentSystem\<close> object, as far as the context is concerned.
  The constructor starts from the empty array and \<^verbatim>\<open>destroy\<close> empties it again; the
  remaining methods (message generators, the monitors, \<^verbatim>\<open>getAIStatus\<close>,
  \<^verbatim>\<open>updateUserPreferences\<close>) only read the context or do not touch it.
\<close>

datatype agent_op =
    OpAddToContext string ctx_data string
  | OpGenerateStageGuidance string string string
  | OpProcessUserMessage "string \<Rightarrow> string" user_message string string
  | OpDestroy
  | OpReadOnly

fun agent_step :: "ctx_entry list \<Rightarrow> agent_op \<Rightarrow> ctx_entry list" where
  "agent_step ctx (OpAddToContext ty d now) = addToContext ty d now ctx"
| "agent_step ctx (OpGenerateStageGuidance stage content now) = generateStageGuidance stage content now ctx"
| "agent_step ctx (OpProcessUserMessage gen um now1 now2) = snd (processUserMessage gen um now1 now2 ctx)"
| "agent_step ctx OpDestroy = []"
| "agent_step ctx OpReadOnly = ctx"

definition agent_run :: "agent_op list \<Rightarrow> ctx_entry list" where
  "agent_run ops = foldl agent_step [] ops"

text \<open>The entries a run of calls to \<^verbatim>\<open>addToContext\<close> was given, oldest first.\<close>

definition add_all :: "(string \<times> ctx_data \<times> string) list \<Rightarrow> ctx_entry list \<Rightarrow> ctx_entry list" where
  "add_all es ctx = foldl (\<lambda>c (ty, d, now). addToContext ty d now c) ctx es"

definition entry_of :: "string \<times> ctx_data \<times> string \<Rightarrow> ctx_entry" where
  "entry_of e = (case e of (ty, d, now) \<Rightarrow> \<lparr>ce_type = ty, ce_data = d, ce_timestamp = now\<rparr>)"

text \<open>Fifty-one calls: one entry, then fifty equal later ones.\<close>

definition example_entries :: "(string \<times> ctx_data \<times> string) list" where
  "example_entries =
     (''stage_guidance'', GuidanceData ''NEGOTIATING'' ''first'', ''t0'')
       # replicate 50 (''stage_guidance'', GuidanceData ''ACCEPTED'' ''later'', ''t1'')"


section \<open>The request helper (frontend/src/api.js)\<close>

subsection \<open>JavaScript values and the array functions the helper uses\<close>

text \<open>
  A parsed JSON value.  Numbers are kept abstract (type \<open>'n\<close>); where a number has to be
  turned into text, the conversion \<^verbatim>\<open>String(n)\<close> is the parameter \<open>sn\<close>.  The members of
  an object are listed in the order in which JavaScript enumerates its properties.
\<close>

datatype 'n json =
    JNull
  | JBool bool
  | JNum 'n
  | JStr string
  | JArr "'n json list"
  | JObj "(string \<times> 'n json) list"

datatype js_error = Error string | TypeError | SyntaxError

text \<open>\<^verbatim>\<open>Array.prototype.join\<close> on texts that are already converted.\<close>

fun js_join :: "string \<Rightarrow> string list \<Rightarrow> string" where
  "js_join sep [] = []"
| "js_join sep [x] = x"
| "js_join sep (x # y # ys) = x @ sep @ js_join sep (y # ys)"

text \<open>
  The text \<^verbatim>\<open>join\<close> produces for one element: nothing for \<^verbatim>\<open>null\<close>, the text itself
  for a string, and \<^verbatim>\<open>String(v)\<close> otherwise, which for an array is its elements joined
  by commas and for an object the fixed text below.
\<close>

fun join_item :: "('n \<Rightarrow> string) \<Rightarrow> 'n json \<Rightarrow> string" where
  "join_item sn JNull = []"
| "join_item sn (JBool b) = (if b then ''true'' else ''false'')"
| "join_item sn (JNum n) = sn n"
| "join_item sn (JStr s) = s"
| "join_item sn (JArr xs) = js_join '','' (map (join_item sn) xs)"
| "join_item sn (JObj kvs) = ''[object Object]''"

definition array_join :: "('n \<Rightarrow> string) \<Rightarrow> string \<Rightarrow> 'n json list \<Rightarrow> string" where
  "array_join sn sep xs = js_join sep (map (join_item sn) xs)"

text \<open>\<^verbatim>\<open>Array.prototype.flat()\<close>, depth 1: elements that are arrays are spliced in.\<close>

fun flat_item :: "'n json \<Rightarrow> 'n json list" where
  "flat_item (JArr xs) = xs"
| "flat_item v = [v]"

definition flat :: "'n json list \<Rightarrow> 'n json list" where
  "flat xs = concat (map flat_item xs)"

text \<open>
  \<^verbatim>\<open>Object.values\<close>: throws a TypeError on \<^verbatim>\<open>null\<close>; a boolean or a number has no own
  properties; a string yields its characters, an array its elements, an object its
  members' values.
\<close>

fun object_values :: "'n json \<Rightarrow> js_error + 'n json list" where
  "object_values JNull = Inl TypeError"
| "object_values (JBool b) = Inr []"
| "object_values (JNum n) = Inr []"
| "object_values (JStr s) = Inr (map (\<lambda>c. JStr [c]) s)"
| "object_values (JArr xs) = Inr xs"
| "object_values (JObj kvs) = Inr (map snd kvs)"

text \<open>\<^verbatim>\<open>a || b\<close> on texts: the empty text is falsy.\<close>

definition or_else :: "string \<Rightarrow> string \<Rightarrow> string" where
  "or_else a b = (if a = [] then b else a)"

text \<open>Decimal notation of a natural number, as a template literal prints a status code.\<close>

fun showNat :: "nat \<Rightarrow> string" where
  "showNat n = (if n < 10 then [''0123456789'' ! n] else showNat (n div 10) @ [''0123456789'' ! (n mod 10)])"

declare showNat.simps [simp del]

subsection \<open>Requests and responses\<close>

text \<open>
  The caller's \<^verbatim>\<open>options\<close> and the \<^verbatim>\<open>config\<close> handed to \<^verbatim>\<open>fetch\<close>.  A header object
  is a map from names to values; a field the caller leaves out is \<open>None\<close>.  The body is
  either a \<^verbatim>\<open>FormData\<close> instance or something else (the callers pass JSON text).
\<close>

datatype req_body = FormData "(string \<times> string) list" | TextBody string

record options =
  opt_method :: "string option"
  opt_body :: "req_body option"
  opt_headers :: "(string \<rightharpoonup> string) option"

record config =
  cfg_method :: "string option"
  cfg_body :: "req_body option"
  cfg_headers :: "string \<rightharpoonup> string"

text \<open>
  A response: its status code and what \<^verbatim>\<open>response.json()\<close> yields, \<open>None\<close> when the
  body is not valid JSON (the promise rejects with a SyntaxError).  \<^verbatim>\<open>response.ok\<close> is
  true exactly for the statuses 200 to 299.
\<close>

record 'n response =
  status :: nat
  json_body :: "'n json option"

definition ok :: "'n response \<Rightarrow> bool" where
  "ok r = (200 \<le> status r \<and> status r \<le> 299)"

definition isFormData :: "options \<Rightarrow> bool" where
  "isFormData opts = (case opt_body opts of Some (FormData fd) \<Rightarrow> True | _ \<Rightarrow> False)"

definition defaultHeaders :: "string \<Rightarrow> options \<Rightarrow> (string \<rightharpoonup> string)" where
  "defaultHeaders tok opts =
     (if isFormData opts then Map.empty else [''Content-Type'' \<mapsto> ''application/json''])
       ++ [''Authorization'' \<mapsto> ''Token '' @ tok]"

definition build_config :: "string \<Rightarrow> options \<Rightarrow> config" where
  "build_config tok opts =
     \<lparr>cfg_method = opt_method opts, cfg_body = opt_body opts,
      cfg_headers = defaultHeaders tok opts
                      ++ (case opt_headers opts of None \<Rightarrow> Map.empty | Some h \<Rightarrow> h)\<rparr>"

text \<open>
  What a call does is recorded as a list of events: the request handed to \<^verbatim>\<open>fetch\<close>, and
  each call of \<^verbatim>\<open>response.json()\<close>.  The network is the parameter \<open>net\<close>: it answers a
  request with a response or fails.  The result is \<open>Inl\<close> for a rejected promise and
  \<open>Inr\<close> for a resolved one (\<^verbatim>\<open>null\<close> being \<open>JNull\<close>).
\<close>

datatype event = EvFetch string config | EvJson

definition error_message :: "('n \<Rightarrow> string) \<Rightarrow> 'n json \<Rightarrow> js_error" where
  "error_message sn errorData =
     (case object_values errorData of
        Inl e \<Rightarrow> e
      | Inr vs \<Rightarrow> Error (or_else (array_join sn '' '' (flat vs)) ''An API error occurred.''))"

definition authFetch ::
  "('n \<Rightarrow> string) \<Rightarrow> (string \<Rightarrow> config \<Rightarrow> js_error + 'n response) \<Rightarrow> string \<Rightarrow> string \<Rightarrow> options
     \<Rightarrow> event list \<times> (js_error + 'n json)" where
  "authFetch sn net url tok opts =
     (let cfg = build_config tok opts in
      case net url cfg of
        Inl e \<Rightarrow> ([EvFetch url cfg], Inl e)
      | Inr response \<Rightarrow>
          if \<not> ok response then
            (case json_body response of
               None \<Rightarrow> ([EvFetch url cfg, EvJson],
                         Inl (Error (''HTTP error! status: '' @ showNat (status response))))
             | Some errorData \<Rightarrow> ([EvFetch url cfg, EvJson], Inl (error_message sn errorData)))
          else if status response = 204 then ([EvFetch url cfg], Inr JNull)
          else (case json_body response of
                  None \<Rightarrow> ([EvFetch url cfg, EvJson], Inl SyntaxError)
                | Some j \<Rightarrow> ([EvFetch url cfg, EvJson], Inr j)))"

text \<open>
  An error body of the expected shape, field names with their lists of messages, as the
  JSON object it parses to; and the messages of all fields, in order.
\<close>

definition field_errors :: "(string \<times> string list) list \<Rightarrow> 'n json" where
  "field_errors kvs = JObj (map (\<lambda>(k, msgs). (k, JArr (map JStr msgs))) kvs)"

definition all_messages :: "(string \<times> string list) list \<Rightarrow> string list" where
  "all_messages kvs = concat (map snd kvs)"

text \<open>The network that answers every request with the response \<open>r\<close>.\<close>

definition always :: "'n response \<Rightarrow> string \<Rightarrow> config \<Rightarrow> js_error + 'n response" where
  "always r url cfg = Inr r"


text \<open>Some calls as the views make them: no options, a JSON POST, a multipart POST.\<close>

definition no_options :: options where
  "no_options = \<lparr>opt_method = None, opt_body = None, opt_headers = None\<rparr>"

definition json_post :: "string \<Rightarrow> options" where
  "json_post txt = \<lparr>opt_method = Some ''POST'', opt_body = Some (TextBody txt), opt_headers = None\<rparr>"

definition form_post :: "(string \<times> string) list \<Rightarrow> (string \<rightharpoonup> string) \<Rightarrow> options" where
  "form_post fd h = \<lparr>opt_method = Some ''POST'', opt_body = Some (FormData fd), opt_headers = Some h\<rparr>"

text \<open>The headers the caller supplies; spreading an absent \<^verbatim>\<open>options.headers\<close> adds nothing.\<close>

definition caller_headers :: "options \<Rightarrow> (string \<rightharpoonup> string)" where
  "caller_headers opts = (case opt_headers opts of None \<Rightarrow> Map.empty | Some h \<Rightarrow> h)"


section \<open>Merging the group room's messages (frontend/src/GroupRoom.jsx, fetchAll)\<close>

text \<open>
  The fields of the backend's entries are JavaScript values read from JSON; a missing
  field is \<^verbatim>\<open>undefined\<close>.  Numbers are integers here (ids and epoch times).
\<close>

datatype jsval = Undefined | Null | Bool bool | Num int | Str string

definition showInt :: "int \<Rightarrow> string" where
  "showInt i = (if i < 0 then ''-'' @ showNat (nat (- i)) else showNat (nat i))"

text \<open>A value inside a template literal, and its truthiness.\<close>

fun template :: "jsval \<Rightarrow> string" where
  "template Undefined = ''undefined''"
| "template Null = ''null''"
| "template (Bool b) = (if b then ''true'' else ''false'')"
| "template (Num n) = showInt n"
| "template (Str s) = s"

fun truthy :: "jsval \<Rightarrow> bool" where
  "truthy Undefined = False"
| "truthy Null = False"
| "truthy (Bool b) = b"
| "truthy (Num n) = (n \<noteq> 0)"
| "truthy (Str s) = (s \<noteq> [])"

definition js_or :: "jsval \<Rightarrow> jsval \<Rightarrow> jsval" where
  "js_or a b = (if truthy a then a else b)"

record chat_entry =
  c_id :: jsval
  c_content :: jsval
  c_sender_name :: jsval
  c_is_ai_agent :: jsval
  c_created_at :: jsval

record history_entry =
  h_id :: jsval
  h_content :: jsval
  h_sender :: jsval
  h_is_ai_agent :: jsval
  h_timestamp :: jsval
  h_type :: jsval

record message =
  m_id :: string
  m_content :: jsval
  m_sender_name :: jsval
  m_is_ai_agent :: jsval
  m_timestamp :: jsval
  m_type :: string

definition of_chat :: "chat_entry \<Rightarrow> message" where
  "of_chat msg =
     \<lparr>m_id = ''chat_'' @ template (c_id msg),
      m_content = c_content msg,
      m_sender_name = js_or (c_sender_name msg) (Str ''Unknown''),
      m_is_ai_agent = js_or (c_is_ai_agent msg) (Bool False),
      m_timestamp = c_created_at msg,
      m_type = ''chat''\<rparr>"

definition of_history :: "history_entry \<Rightarrow> message" where
  "of_history msg =
     \<lparr>m_id = ''history_'' @ template (h_id msg),
      m_content = h_content msg,
      m_sender_name = (if h_sender msg = Str ''AI Agent'' then Str ''AI Agent''
                       else if h_sender msg = Str ''buyer123'' then Str ''You''
                       else h_sender msg),
      m_is_ai_agent = js_or (h_is_ai_agent msg) (Bool (h_sender msg = Str ''AI Agent'')),
      m_timestamp = h_timestamp msg,
      m_type = ''negotiation''\<rparr>"

definition shown_in_room :: "history_entry \<Rightarrow> bool" where
  "shown_in_room msg = (h_type msg = Str ''negotiation_message'' \<or> h_type msg = Str ''poll'')"

text \<open>The list \<^verbatim>\<open>allMessages\<close> before it is sorted: chat entries, then history entries.\<close>

definition allMessages :: "chat_entry list \<Rightarrow> history_entry list \<Rightarrow> message list" where
  "allMessages chatMessages allHistoryMessages =
     map of_chat chatMessages @ map of_history (filter shown_in_room allHistoryMessages)"

text \<open>
  The number the comparator subtracts: a string goes through \<^verbatim>\<open>new Date\<close>, whose time
  value is given by the parameter \<open>pd\<close> (\<open>None\<close> for an invalid date); any other value is
  converted to a number by the subtraction itself.  \<open>None\<close> stands for \<^verbatim>\<open>NaN\<close>.
\<close>

fun time_value :: "(string \<Rightarrow> int option) \<Rightarrow> jsval \<Rightarrow> int option" where
  "time_value pd (Str s) = pd s"
| "time_value pd (Num n) = Some n"
| "time_value pd Null = Some 0"
| "time_value pd (Bool b) = Some (if b then 1 else 0)"
| "time_value pd Undefined = None"

text \<open>
  The comparator \<^verbatim>\<open>timeA - timeB\<close> as \<^verbatim>\<open>sort\<close> reads it: a \<^verbatim>\<open>NaN\<close> result counts
  as 0.
\<close>

definition compare_time :: "(string \<Rightarrow> int option) \<Rightarrow> message \<Rightarrow> message \<Rightarrow> int" where
  "compare_time pd a b =
     (case (time_value pd (m_timestamp a), time_value pd (m_timestamp b)) of
        (Some timeA, Some timeB) \<Rightarrow> timeA - timeB
      | _ \<Rightarrow> 0)"

text \<open>
  \<^verbatim>\<open>Array.prototype.sort\<close> with a comparator.  For a consistent comparator the language
  fixes the result: the stable sorted rearrangement, which stable insertion computes.
\<close>

fun insert_by :: "('a \<Rightarrow> 'a \<Rightarrow> int) \<Rightarrow> 'a \<Rightarrow> 'a list \<Rightarrow> 'a list" where
  "insert_by cmp x [] = [x]"
| "insert_by cmp x (y # ys) = (if cmp x y \<le> 0 then x # y # ys else y # insert_by cmp x ys)"

definition sort_by :: "('a \<Rightarrow> 'a \<Rightarrow> int) \<Rightarrow> 'a list \<Rightarrow> 'a list" where
  "sort_by cmp xs = foldr (insert_by cmp) xs []"

definition mergeMessages ::
  "(string \<Rightarrow> int option) \<Rightarrow> chat_entry list \<Rightarrow> history_entry list \<Rightarrow> message list" where
  "mergeMessages pd chatMessages allHistoryMessages =
     sort_by (compare_time pd) (allMessages chatMessages allHistoryMessages)"

text \<open>One entry is not later than another: both times are numbers, in this order.\<close>

definition not_later :: "(string \<Rightarrow> int option) \<Rightarrow> message \<Rightarrow> message \<Rightarrow> bool" where
  "not_later pd a b =
     (case (time_value pd (m_timestamp a), time_value pd (m_timestamp b)) of
        (Some timeA, Some timeB) \<Rightarrow> timeA \<le> timeB
      | _ \<Rightarrow> False)"

definition has_time :: "(string \<Rightarrow> int option) \<Rightarrow> message \<Rightarrow> bool" where
  "has_time pd m = (time_value pd (m_timestamp m) \<noteq> None)"


text \<open>A chat entry and a history entry that share the original id 7, and the times of their dates.\<close>

definition example_parse :: "string \<Rightarrow> int option" where
  "example_parse s =
     (if s = ''2024-01-01T10:00:00Z'' then Some 1704103200000
      else if s = ''2024-01-01T09:00:00Z'' then Some 1704099600000
      else None)"

definition example_chat :: chat_entry where
  "example_chat =
     \<lparr>c_id = Num 7, c_content = Str ''hello'', c_sender_name = Undefined,
      c_is_ai_agent = Undefined, c_created_at = Str ''2024-01-01T10:00:00Z''\<rparr>"

definition example_history :: history_entry where
  "example_history =
     \<lparr>h_id = Num 7, h_content = Str ''offer'', h_sender = Str ''AI Agent'',
      h_is_ai_agent = Undefined, h_timestamp = Str ''2024-01-01T09:00:00Z'', h_type = Str ''poll''\<rparr>"

text \<open>
  A history entry of another type, a negotiation message of 10:00, and a chat entry with
  a given id and timestamp.
\<close>

definition example_other :: history_entry where
  "example_other =
     \<lparr>h_id = Num 9, h_content = Str ''joined'', h_sender = Str ''system'',
      h_is_ai_agent = Undefined, h_timestamp = Str ''2024-01-01T09:00:00Z'', h_type = Str ''member_joined''\<rparr>"

definition example_reply :: history_entry where
  "example_reply =
     \<lparr>h_id = Num 8, h_content = Str ''counter'', h_sender = Str ''buyer123'',
      h_is_ai_agent = Undefined, h_timestamp = Str ''2024-01-01T10:00:00Z'',
      h_type = Str ''negotiation_message''\<rparr>"

definition chat_at :: "int \<Rightarrow> jsval \<Rightarrow> chat_entry" where
  "chat_at i t =
     \<lparr>c_id = Num i, c_content = Str ''hello'', c_sender_name = Undefined,
      c_is_ai_agent = Undefined, c_created_at = t\<rparr>"


section \<open>The farmer's listing form (frontend/src/FarmerDashboard.jsx)\<close>

text \<open>
  The component state behind the form: the three controlled fields, the error line and
  the names of the crops offered.
\<close>

record farmer_form =
  selectedCrop :: string
  quantity :: string
  selectedGrade :: string
  formError :: "js_error option"
  crop_names :: "string list"

text \<open>
  The controls the form renders: a \<^verbatim>\<open>select\<close> with its value, the values of its options
  and its \<^verbatim>\<open>required\<close> flag; a number field with its value, its \<^verbatim>\<open>required\<close> flag and
  its \<^verbatim>\<open>min\<close>.
\<close>

datatype control =
    SelectCtl string "string list" bool
  | NumberCtl string bool "rat option"

definition grade_options :: "string list" where
  "grade_options = ['''', ''FAQ'', ''Medium'', ''Large'', ''Local'', ''Non-FAQ'', ''Ref grade-1'', ''Ref grade-2'']"

definition listing_form :: "farmer_form \<Rightarrow> control list" where
  "listing_form st =
     [SelectCtl (selectedCrop st) ('''' # crop_names st) True,
      NumberCtl (quantity st) True (Some 1),
      SelectCtl (selectedGrade st) grade_options True]"

text \<open>
  The option a controlled \<^verbatim>\<open>select\<close> shows: the one whose value is the state's value,
  the first option when there is none.
\<close>

definition selected_value :: "string \<Rightarrow> string list \<Rightarrow> string" where
  "selected_value v opts = (if v \<in> set opts then v else (case opts of [] \<Rightarrow> [] | x # xs \<Rightarrow> x))"

text \<open>
  Constraint validation of the browser.  A required \<^verbatim>\<open>select\<close> whose selected option
  has the empty value is missing its value.  A number field holds the empty text or the
  text of a number (the parameter \<open>num\<close> reads it); it is invalid when required and
  empty, when below \<^verbatim>\<open>min\<close>, or when off the step of 1 counted from \<^verbatim>\<open>min\<close>.
\<close>

fun control_valid :: "(string \<Rightarrow> rat option) \<Rightarrow> control \<Rightarrow> bool" where
  "control_valid num (SelectCtl v opts req) = (\<not> (req \<and> selected_value v opts = []))"
| "control_valid num (NumberCtl v req mn) =
     (case num v of
        None \<Rightarrow> \<not> req
      | Some x \<Rightarrow> (case mn of None \<Rightarrow> frac x = 0 | Some m \<Rightarrow> m \<le> x \<and> frac (x - m) = 0))"

text \<open>
  \<^verbatim>\<open>fetchData\<close> on the harvest tab starts two requests; only the requests are modelled,
  the call is not awaited by the handler.
\<close>

definition fetchData_events ::
  "('n \<Rightarrow> string) \<Rightarrow> (string \<Rightarrow> config \<Rightarrow> js_error + 'n response) \<Rightarrow> string \<Rightarrow> string \<Rightarrow> event list" where
  "fetchData_events sn net api_base tok =
     fst (authFetch sn net (api_base @ ''/api/products/crops/'') tok no_options)
     @ fst (authFetch sn net (api_base @ ''/api/products/my-listings/'') tok no_options)"

text \<open>
  \<^verbatim>\<open>handleSubmitListing\<close>: clears the error line, posts the three fields as form data
  (\<open>pint\<close> is the text of \<^verbatim>\<open>parseInt(quantity, 10)\<close>), and on success empties the fields
  and reloads; on failure it shows the error.  The handler itself checks nothing.
\<close>

definition handleSubmitListing ::
  "('n \<Rightarrow> string) \<Rightarrow> (string \<Rightarrow> config \<Rightarrow> js_error + 'n response) \<Rightarrow> (string \<Rightarrow> string) \<Rightarrow> string \<Rightarrow> string
     \<Rightarrow> farmer_form \<Rightarrow> event list \<times> farmer_form" where
  "handleSubmitListing sn net pint api_base tok st =
     (let formData = [(''crop_name'', selectedCrop st),
                      (''quantity_kg'', pint (quantity st)),
                      (''grade'', selectedGrade st)];
          call = authFetch sn net (api_base @ ''/api/products/list-product/'') tok
                   (form_post formData [''Authorization'' \<mapsto> ''Token '' @ tok])
      in case snd call of
           Inl err \<Rightarrow> (fst call, st\<lparr>formError := Some err\<rparr>)
         | Inr res \<Rightarrow> (fst call @ fetchData_events sn net api_base tok,
                        st\<lparr>selectedCrop := [], quantity := [], selectedGrade := [], formError := None\<rparr>))"

text \<open>
  Submitting the form: the browser validates the controls first and fires the
  \<^verbatim>\<open>submit\<close> event, which runs the handler, only when all of them are valid.
\<close>

definition submit_listing_form ::
  "('n \<Rightarrow> string) \<Rightarrow> (string \<Rightarrow> config \<Rightarrow> js_error + 'n response) \<Rightarrow> (string \<Rightarrow> rat option) \<Rightarrow> (string \<Rightarrow> string)
     \<Rightarrow> string \<Rightarrow> string \<Rightarrow> farmer_form \<Rightarrow> event list \<times> farmer_form" where
  "submit_listing_form sn net num pint api_base tok st =
     (if list_all (control_valid num) (listing_form st)
      then handleSubmitListing sn net pint api_base tok st
      else ([], st))"

text \<open>A filled form without a crop, and a filled form.\<close>

definition form_without_crop :: farmer_form where
  "form_without_crop =
     \<lparr>selectedCrop = [], quantity = ''100'', selectedGrade = ''FAQ'', formError = None,
      crop_names = [''Wheat'', ''Rice'']\<rparr>"

definition form_filled :: farmer_form where
  "form_filled = form_without_crop\<lparr>selectedCrop := ''Wheat''\<rparr>"

definition example_num :: "string \<Rightarrow> rat option" where
  "example_num s = (if s = ''100'' then Some 100 else None)"


section \<open>The simulated stage engine (WorkflowEngine.js)\<close>

subsection \<open>The deal group and the conditions computed from it\<close>

text \<open>
  The fields of the deal group the engine reads or writes; a field that is absent in
  client memory is \<open>None\<close>.  Numbers are rationals and the arithmetic on them is exact:
  the rounding of JavaScript's doubles is not modelled.  A date is its time value in
  milliseconds; \<open>p_expires_at\<close> is the time value of \<^verbatim>\<open>new Date(poll.expires_at)\<close>, \<open>None\<close>
  for an invalid date.
\<close>

record poll =
  p_total_votes :: "rat option"
  p_expires_at :: "int option"

record offer =
  o_price_per_kg :: "rat option"

record deal_group =
  dg_status :: "string option"
  active_poll :: "poll option"
  members_count :: "rat option"
  target_price_per_kg :: "rat option"
  current_offer :: "offer option"
  total_quantity_kg :: "rat option"
  confirmed_quantity_kg :: "rat option"
  total_value :: "rat option"
  escrow_status :: "string option"
  logistics_status :: "string option"
  assigned_hub :: "string option"
  collection_status :: "string option"
  shipment_status :: "string option"
  estimated_delivery :: "int option"
  delivery_scheduled :: "bool option"
  delivery_date :: "int option"
  receipt_status :: "string option"
  payment_status :: "string option"

text \<open>\<^verbatim>\<open>x || d\<close> on an optional number: absent and 0 are falsy.\<close>

definition num_or :: "rat option \<Rightarrow> rat \<Rightarrow> rat" where
  "num_or x d = (case x of None \<Rightarrow> d | Some v \<Rightarrow> if v = 0 then d else v)"

definition checkPollConsensus :: "deal_group \<Rightarrow> bool" where
  "checkPollConsensus dg =
     (case active_poll dg of
        None \<Rightarrow> False
      | Some poll \<Rightarrow>
          (let totalVotes = num_or (p_total_votes poll) 0;
               requiredVotes = num_or (members_count dg) 1;
               consensusThreshold = 75 / 100
           in totalVotes / requiredVotes \<ge> consensusThreshold))"

definition checkPriceAgreement :: "deal_group \<Rightarrow> bool" where
  "checkPriceAgreement dg =
     (let targetPrice = target_price_per_kg dg;
          currentOffer = (case current_offer dg of None \<Rightarrow> None | Some off \<Rightarrow> o_price_per_kg off)
      in case (targetPrice, currentOffer) of
           (Some t, Some c) \<Rightarrow>
             if t = 0 \<or> c = 0 then False
             else (let priceDifference = \<bar>c - t\<bar> / t in priceDifference \<le> 1 / 10)
         | _ \<Rightarrow> False)"

definition checkQuantityConfirmed :: "deal_group \<Rightarrow> bool" where
  "checkQuantityConfirmed dg =
     (case total_quantity_kg dg of
        None \<Rightarrow> False
      | Some requiredQuantity \<Rightarrow>
          num_or (confirmed_quantity_kg dg) 0 \<ge> requiredQuantity * (9 / 10))"

definition checkEscrowConfirmed :: "deal_group \<Rightarrow> bool" where
  "checkEscrowConfirmed dg = (escrow_status dg = Some ''CONFIRMED'')"

definition checkLogisticsReady :: "deal_group \<Rightarrow> bool" where
  "checkLogisticsReady dg = (logistics_status dg = Some ''READY'')"

definition checkCollectionConfirmed :: "deal_group \<Rightarrow> bool" where
  "checkCollectionConfirmed dg = (collection_status dg = Some ''CONFIRMED'')"

definition checkShipmentConfirmed :: "deal_group \<Rightarrow> bool" where
  "checkShipmentConfirmed dg = (shipment_status dg = Some ''CONFIRMED'')"

definition checkDeliveryScheduled :: "deal_group \<Rightarrow> bool" where
  "checkDeliveryScheduled dg = (delivery_scheduled dg = Some True)"

definition checkReceiptVerified :: "deal_group \<Rightarrow> bool" where
  "checkReceiptVerified dg = (receipt_status dg = Some ''VERIFIED'')"

definition checkPaymentCompleted :: "deal_group \<Rightarrow> bool" where
  "checkPaymentCompleted dg = (payment_status dg = Some ''COMPLETED'')"

definition checkEscrowCleared :: "deal_group \<Rightarrow> bool" where
  "checkEscrowCleared dg = (escrow_status dg = Some ''RELEASED'')"

text \<open>The \<^verbatim>\<open>switch\<close> of \<^verbatim>\<open>checkStageConditions\<close>; a name without a case is false.\<close>

definition check_condition :: "deal_group \<Rightarrow> string \<Rightarrow> bool" where
  "check_condition dg condition =
     (if condition = ''poll_consensus'' then checkPollConsensus dg
      else if condition = ''price_agreement'' then checkPriceAgreement dg
      else if condition = ''quantity_confirmed'' then checkQuantityConfirmed dg
      else if condition = ''escrow_confirmed'' then checkEscrowConfirmed dg
      else if condition = ''logistics_ready'' then checkLogisticsReady dg
      else if condition = ''collection_confirmed'' then checkCollectionConfirmed dg
      else if condition = ''shipment_confirmed'' then checkShipmentConfirmed dg
      else if condition = ''delivery_scheduled'' then checkDeliveryScheduled dg
      else if condition = ''receipt_verified'' then checkReceiptVerified dg
      else if condition = ''payment_completed'' then checkPaymentCompleted dg
      else if condition = ''escrow_cleared'' then checkEscrowCleared dg
      else False)"

definition checkStageConditions :: "string list \<Rightarrow> deal_group \<Rightarrow> bool" where
  "checkStageConditions conditions dg =
     (if conditions = [] then True else list_all (\<lambda>result. result = True) (map (check_condition dg) conditions))"

subsection \<open>The automation rules\<close>

record stage_rules =
  autoActions :: "string list"
  triggers :: "string list"
  nextStage :: string
  conditions :: "string list"

definition automationRules :: "string \<Rightarrow> stage_rules option" where
  "automationRules stage =
     (if stage = ''NEGOTIATING'' then Some
        \<lparr>autoActions = [''check_poll_status'', ''suggest_counter_offers'', ''market_analysis''],
         triggers = [''poll_expired'', ''consensus_reached'', ''deadline_approaching''],
         nextStage = ''ACCEPTED'',
         conditions = [''poll_consensus'', ''price_agreement'', ''quantity_confirmed'']\<rparr>
      else if stage = ''ACCEPTED'' then Some
        \<lparr>autoActions = [''assign_logistics_hub'', ''create_escrow_contract'', ''notify_buyer''],
         triggers = [''escrow_deposited'', ''hub_assigned'', ''collection_scheduled''],
         nextStage = ''IN_TRANSIT'',
         conditions = [''escrow_confirmed'', ''logistics_ready'', ''collection_confirmed'']\<rparr>
      else if stage = ''IN_TRANSIT'' then Some
        \<lparr>autoActions = [''track_shipment'', ''update_status'', ''coordinate_delivery''],
         triggers = [''shipment_picked'', ''in_transit'', ''delivery_imminent''],
         nextStage = ''DELIVERED'',
         conditions = [''shipment_confirmed'', ''delivery_scheduled'', ''receipt_ready'']\<rparr>
      else if stage = ''DELIVERED'' then Some
        \<lparr>autoActions = [''confirm_receipt'', ''process_payment'', ''release_escrow''],
         triggers = [''receipt_confirmed'', ''payment_processed'', ''escrow_released''],
         nextStage = ''COMPLETED'',
         conditions = [''receipt_verified'', ''payment_completed'', ''escrow_cleared'']\<rparr>
      else None)"


subsection \<open>The engine's state\<close>

text \<open>
  What the engine reads from its host: the text of a date (\<^verbatim>\<open>toISOString\<close>,
  \<^verbatim>\<open>toLocaleDateString\<close>), the text of a number in a template literal (\<open>None\<close> is
  \<^verbatim>\<open>NaN\<close>), and the values \<^verbatim>\<open>Math.random()\<close> returns, by the number of the draw.
\<close>

record host =
  iso_string :: "int \<Rightarrow> string"
  locale_date :: "int \<Rightarrow> string"
  number_text :: "rat option \<Rightarrow> string"
  random :: "nat \<Rightarrow> rat"

datatype action_data =
    CounterOfferData "rat option" offer
  | MarketInsightsData string string
  | HubData string string
  | EscrowContractData string "rat option"
  | NotificationData string string
  | DeliveryData "int option"
  | ReceiptData string
  | PaymentData string
  | ReleaseData string
  | PollExpiredData string
  | DeadlineData nat

record pending_action =
  pa_type :: string
  pa_data :: action_data
  pa_priority :: string
  pa_message :: string
  pa_id :: rat
  pa_timestamp :: string
  pa_status :: string

record history_item =
  hi_stage :: string
  hi_timestamp :: string
  hi_reason :: string

text \<open>The calls of the two callbacks the engine was constructed with.\<close>

datatype notification =
    StateChange string "history_item list"
  | ActionRequired pending_action

text \<open>The functions the engine hands to \<^verbatim>\<open>setTimeout\<close> and \<^verbatim>\<open>setInterval\<close>.\<close>

datatype callback =
    CbMarketAnalysis
  | CbHubAssigned
  | CbEscrowCreated
  | CbShipmentStatus
  | CbDeliveryCoordinated
  | CbReceiptConfirmed
  | CbPaymentProcessed
  | CbEscrowReleased
  | CbAutomation

record timer =
  t_delay :: nat
  t_repeat :: bool
  t_callback :: callback

record engine =
  dealGroup :: deal_group
  user_role :: string
  currentStage :: string
  stageHistory :: "history_item list"
  pendingActions :: "pending_action list"
  autoProgressEnabled :: bool
  timers :: "timer list"
  notifications :: "notification list"
  draws :: nat

definition setTimeout :: "callback \<Rightarrow> nat \<Rightarrow> engine \<Rightarrow> engine" where
  "setTimeout cb ms st = st\<lparr>timers := timers st @ [\<lparr>t_delay = ms, t_repeat = False, t_callback = cb\<rparr>]\<rparr>"

definition setInterval :: "callback \<Rightarrow> nat \<Rightarrow> engine \<Rightarrow> engine" where
  "setInterval cb ms st = st\<lparr>timers := timers st @ [\<lparr>t_delay = ms, t_repeat = True, t_callback = cb\<rparr>]\<rparr>"

definition onStateChange :: "engine \<Rightarrow> engine" where
  "onStateChange st =
     st\<lparr>notifications := notifications st @ [StateChange (currentStage st) (stageHistory st)]\<rparr>"

text \<open>
  \<^verbatim>\<open>addPendingAction\<close> stamps the action with an id (\<^verbatim>\<open>Date.now() + Math.random()\<close>),
  the time and the status, appends it and reports it.  \<open>now\<close> is the clock's time value
  during the run.
\<close>

definition addPendingAction ::
  "host \<Rightarrow> int \<Rightarrow> string \<Rightarrow> action_data \<Rightarrow> string \<Rightarrow> string \<Rightarrow> engine \<Rightarrow> engine" where
  "addPendingAction h now ty d priority msg st =
     (let action = \<lparr>pa_type = ty, pa_data = d, pa_priority = priority, pa_message = msg,
                     pa_id = of_int now + random h (draws st),
                     pa_timestamp = iso_string h now,
                     pa_status = ''pending''\<rparr>
      in st\<lparr>pendingActions := pendingActions st @ [action],
            notifications := notifications st @ [ActionRequired action],
            draws := Suc (draws st)\<rparr>)"

text \<open>
  \<^verbatim>\<open>checkPendingActions\<close> sorts the pending actions by descending priority; a priority
  outside the table makes the comparator's result \<^verbatim>\<open>NaN\<close>, which counts as 0.
\<close>

definition priorityOrder :: "string \<Rightarrow> int option" where
  "priorityOrder p =
     (if p = ''high'' then Some 3 else if p = ''medium'' then Some 2
      else if p = ''low'' then Some 1 else None)"

definition compare_priority :: "pending_action \<Rightarrow> pending_action \<Rightarrow> int" where
  "compare_priority a b =
     (case (priorityOrder (pa_priority b), priorityOrder (pa_priority a)) of
        (Some pb, Some pa) \<Rightarrow> pb - pa
      | _ \<Rightarrow> 0)"

definition checkPendingActions :: "engine \<Rightarrow> engine" where
  "checkPendingActions st =
     (if pendingActions st = [] then st
      else st\<lparr>pendingActions := sort_by compare_priority (pendingActions st)\<rparr>)"

subsection \<open>The auto-actions\<close>

text \<open>The currency sign as the source file has it.\<close>

definition rupee :: string where
  "rupee = [CHR 0xC3, CHR 0xA2, CHR 0xE2, CHR 0x80, CHR 0x9A, CHR 0xC2, CHR 0xB9]"

definition suggestCounterOffers :: "host \<Rightarrow> int \<Rightarrow> engine \<Rightarrow> engine" where
  "suggestCounterOffers h now st =
     (if user_role st \<noteq> ''FARMER'' then st
      else case current_offer (dealGroup st) of
             None \<Rightarrow> st
           | Some currentOffer \<Rightarrow>
               (let targetPrice = target_price_per_kg (dealGroup st);
                    suggestedPrice = map_option (\<lambda>t. t * (105 / 100)) targetPrice
                in addPendingAction h now ''COUNTER_OFFER_SUGGESTION''
                     (CounterOfferData suggestedPrice currentOffer) ''high''
                     (''Consider making a counter offer of '' @ rupee @ number_text h suggestedPrice @ ''/kg'')
                     st))"

definition performMarketAnalysis :: "engine \<Rightarrow> engine" where
  "performMarketAnalysis st = setTimeout CbMarketAnalysis 2000 st"

definition assignLogisticsHub :: "engine \<Rightarrow> engine" where
  "assignLogisticsHub st = setTimeout CbHubAssigned 1500 st"

definition createEscrowContract :: "engine \<Rightarrow> engine" where
  "createEscrowContract st = setTimeout CbEscrowCreated 2000 st"

definition notifyBuyer :: "host \<Rightarrow> int \<Rightarrow> engine \<Rightarrow> engine" where
  "notifyBuyer h now st =
     addPendingAction h now ''BUYER_NOTIFICATION'' (NotificationData (currentStage st) ''required'')
       ''medium'' ''Buyer notified of stage progression'' st"

definition trackShipment :: "engine \<Rightarrow> engine" where
  "trackShipment st = setInterval CbShipmentStatus 30000 st"

definition updateStatus :: "engine \<Rightarrow> engine" where
  "updateStatus st = onStateChange st"

definition coordinateDelivery :: "engine \<Rightarrow> engine" where
  "coordinateDelivery st = setTimeout CbDeliveryCoordinated 1000 st"

definition confirmReceipt :: "engine \<Rightarrow> engine" where
  "confirmReceipt st = setTimeout CbReceiptConfirmed 1500 st"

definition processPayment :: "engine \<Rightarrow> engine" where
  "processPayment st = setTimeout CbPaymentProcessed 2000 st"

definition releaseEscrow :: "engine \<Rightarrow> engine" where
  "releaseEscrow st = setTimeout CbEscrowReleased 1500 st"

definition notifyPollDeadline :: "host \<Rightarrow> int \<Rightarrow> engine \<Rightarrow> engine" where
  "notifyPollDeadline h now st =
     addPendingAction h now ''POLL_DEADLINE_APPROACHING'' (DeadlineData 2) ''high''
       ''Poll deadline approaching! Please vote within 2 hours.'' st"


subsection \<open>Analysing a stage and progressing\<close>

text \<open>
  \<^verbatim>\<open>analyzeCurrentStage\<close> and \<^verbatim>\<open>progressToNextStage\<close> call each other, the first also
  through the auto-action \<^verbatim>\<open>check_poll_status\<close>.  Each method is written with the method it
  calls back into as its parameter \<open>progress\<close> (or \<open>analyze\<close>); the knot is tied below.
  A result \<open>None\<close> means that the call did not return.
\<close>

definition handlePollExpiry ::
  "host \<Rightarrow> int \<Rightarrow> (engine \<Rightarrow> engine option) \<Rightarrow> engine \<Rightarrow> engine option" where
  "handlePollExpiry h now progress st =
     (if checkPollConsensus (dealGroup st) then progress st
      else Some (addPendingAction h now ''POLL_EXPIRED_NO_CONSENSUS''
                   (PollExpiredData ''No consensus reached'') ''high''
                   ''Poll expired without consensus. Deal may need renegotiation.'' st))"

definition checkPollStatus ::
  "host \<Rightarrow> int \<Rightarrow> (engine \<Rightarrow> engine option) \<Rightarrow> engine \<Rightarrow> engine option" where
  "checkPollStatus h now progress st =
     (case active_poll (dealGroup st) of
        None \<Rightarrow> Some st
      | Some poll \<Rightarrow>
          (case p_expires_at poll of
             None \<Rightarrow> Some st
           | Some expiry \<Rightarrow>
               if now > expiry then handlePollExpiry h now progress st
               else (let timeLeft = expiry - now;
                         hoursLeft = (of_int timeLeft :: rat) / (1000 * 60 * 60)
                     in if hoursLeft \<le> 2 then Some (notifyPollDeadline h now st) else Some st)))"

text \<open>The \<^verbatim>\<open>switch\<close> of \<^verbatim>\<open>executeAutoActions\<close>; a name without a case does nothing.\<close>

definition auto_action ::
  "host \<Rightarrow> int \<Rightarrow> (engine \<Rightarrow> engine option) \<Rightarrow> string \<Rightarrow> engine \<Rightarrow> engine option" where
  "auto_action h now progress action st =
     (if action = ''check_poll_status'' then checkPollStatus h now progress st
      else if action = ''suggest_counter_offers'' then Some (suggestCounterOffers h now st)
      else if action = ''market_analysis'' then Some (performMarketAnalysis st)
      else if action = ''assign_logistics_hub'' then Some (assignLogisticsHub st)
      else if action = ''create_escrow_contract'' then Some (createEscrowContract st)
      else if action = ''notify_buyer'' then Some (notifyBuyer h now st)
      else if action = ''track_shipment'' then Some (trackShipment st)
      else if action = ''update_status'' then Some (updateStatus st)
      else if action = ''coordinate_delivery'' then Some (coordinateDelivery st)
      else if action = ''confirm_receipt'' then Some (confirmReceipt st)
      else if action = ''process_payment'' then Some (processPayment st)
      else if action = ''release_escrow'' then Some (releaseEscrow st)
      else Some st)"

fun executeAutoActions ::
  "host \<Rightarrow> int \<Rightarrow> (engine \<Rightarrow> engine option) \<Rightarrow> string list \<Rightarrow> engine \<Rightarrow> engine option" where
  "executeAutoActions h now progress [] st = Some st"
| "executeAutoActions h now progress (action # actions) st =
     (case auto_action h now progress action st of
        None \<Rightarrow> None
      | Some st1 \<Rightarrow> executeAutoActions h now progress actions st1)"

definition analyzeCurrentStage_body ::
  "host \<Rightarrow> int \<Rightarrow> (engine \<Rightarrow> engine option) \<Rightarrow> engine \<Rightarrow> engine option" where
  "analyzeCurrentStage_body h now progress st =
     (case automationRules (currentStage st) of
        None \<Rightarrow> Some st
      | Some stageRules \<Rightarrow>
          if checkStageConditions (conditions stageRules) (dealGroup st) then progress st
          else (case executeAutoActions h now progress (autoActions stageRules) st of
                  None \<Rightarrow> None
                | Some st1 \<Rightarrow> Some (checkPendingActions st1)))"

definition progressToNextStage_body ::
  "host \<Rightarrow> int \<Rightarrow> (engine \<Rightarrow> engine option) \<Rightarrow> engine \<Rightarrow> engine option" where
  "progressToNextStage_body h now analyze st =
     (case automationRules (currentStage st) of
        None \<Rightarrow> Some st
      | Some currentRules \<Rightarrow>
          if nextStage currentRules = [] then Some st
          else (let st1 = st\<lparr>stageHistory := stageHistory st @
                               [\<lparr>hi_stage = currentStage st, hi_timestamp = iso_string h now,
                                 hi_reason = ''Automated progression''\<rparr>]\<rparr>;
                    st2 = st1\<lparr>currentStage := nextStage currentRules\<rparr>
                in analyze (onStateChange st2)))"

text \<open>
  The recursion, bounded by the number \<open>n\<close> of nested calls of \<^verbatim>\<open>analyzeCurrentStage\<close>
  from \<^verbatim>\<open>progressToNextStage\<close> that are still allowed; with none left the call does not
  return.  Four always suffice (see below).
\<close>

primrec progressToNextStage :: "host \<Rightarrow> int \<Rightarrow> nat \<Rightarrow> engine \<Rightarrow> engine option" where
  "progressToNextStage h now 0 = progressToNextStage_body h now (\<lambda>st. None)"
| "progressToNextStage h now (Suc n) =
     progressToNextStage_body h now (analyzeCurrentStage_body h now (progressToNextStage h now n))"

definition analyzeCurrentStage :: "host \<Rightarrow> int \<Rightarrow> nat \<Rightarrow> engine \<Rightarrow> engine option" where
  "analyzeCurrentStage h now n = analyzeCurrentStage_body h now (progressToNextStage h now n)"

subsection \<open>Timers and the object's life\<close>

definition hubAssigned :: "host \<Rightarrow> int \<Rightarrow> engine \<Rightarrow> engine" where
  "hubAssigned h now st =
     addPendingAction h now ''HUB_ASSIGNED'' (HubData ''Central Hub - Mumbai'' ''Mumbai'') ''high''
       ''Logistics hub assigned: Central Hub - Mumbai''
       (st\<lparr>dealGroup := (dealGroup st)\<lparr>logistics_status := Some ''READY'',
                                         assigned_hub := Some ''Central Hub - Mumbai''\<rparr>\<rparr>)"

definition marketAnalysisComplete :: "host \<Rightarrow> int \<Rightarrow> engine \<Rightarrow> engine" where
  "marketAnalysisComplete h now st =
     addPendingAction h now ''MARKET_INSIGHTS'' (MarketInsightsData ''stable'' (rupee @ ''45-55/kg''))
       ''medium'' (''Market analysis shows stable prices in '' @ rupee @ ''45-55/kg range'') st"

definition escrowCreated :: "host \<Rightarrow> int \<Rightarrow> engine \<Rightarrow> engine" where
  "escrowCreated h now st =
     addPendingAction h now ''ESCROW_CONTRACT_READY''
       (EscrowContractData ''ESC-2024-001'' (total_value (dealGroup st))) ''high''
       ''Escrow contract ready for buyer confirmation''
       (st\<lparr>dealGroup := (dealGroup st)\<lparr>escrow_status := Some ''PENDING''\<rparr>\<rparr>)"

definition shipmentStatus :: "int \<Rightarrow> engine \<Rightarrow> engine" where
  "shipmentStatus now st =
     onStateChange
       (st\<lparr>dealGroup := (dealGroup st)\<lparr>shipment_status := Some ''IN_TRANSIT'',
                                         estimated_delivery := Some (now + 24 * 60 * 60 * 1000)\<rparr>\<rparr>)"

definition deliveryCoordinated :: "host \<Rightarrow> int \<Rightarrow> engine \<Rightarrow> engine" where
  "deliveryCoordinated h now st =
     (let st1 = st\<lparr>dealGroup := (dealGroup st)\<lparr>delivery_scheduled := Some True,
                                                 delivery_date := Some (now + 2 * 24 * 60 * 60 * 1000)\<rparr>\<rparr>
      in addPendingAction h now ''DELIVERY_SCHEDULED'' (DeliveryData (delivery_date (dealGroup st1))) ''high''
           (''Delivery scheduled for '' @ locale_date h (now + 2 * 24 * 60 * 60 * 1000)) st1)"

definition receiptConfirmed :: "host \<Rightarrow> int \<Rightarrow> engine \<Rightarrow> engine" where
  "receiptConfirmed h now st =
     addPendingAction h now ''RECEIPT_VERIFIED'' (ReceiptData ''RCP-2024-001'') ''high''
       ''Receipt verified successfully''
       (st\<lparr>dealGroup := (dealGroup st)\<lparr>receipt_status := Some ''VERIFIED''\<rparr>\<rparr>)"

definition paymentProcessed :: "host \<Rightarrow> int \<Rightarrow> engine \<Rightarrow> engine" where
  "paymentProcessed h now st =
     addPendingAction h now ''PAYMENT_COMPLETED'' (PaymentData ''TXN-2024-001'') ''high''
       ''Payment processed successfully''
       (st\<lparr>dealGroup := (dealGroup st)\<lparr>payment_status := Some ''COMPLETED''\<rparr>\<rparr>)"

definition escrowReleased :: "host \<Rightarrow> int \<Rightarrow> engine \<Rightarrow> engine" where
  "escrowReleased h now st =
     addPendingAction h now ''ESCROW_RELEASED'' (ReleaseData ''REL-2024-001'') ''high''
       ''Escrow released to farmers''
       (st\<lparr>dealGroup := (dealGroup st)\<lparr>escrow_status := Some ''RELEASED''\<rparr>\<rparr>)"

text \<open>
  Running the function of a timer at the time \<open>now\<close>.  The automation timer analyses the
  stage when auto-progress is enabled.
\<close>

fun fire :: "host \<Rightarrow> int \<Rightarrow> nat \<Rightarrow> callback \<Rightarrow> engine \<Rightarrow> engine option" where
  "fire h now n CbMarketAnalysis st = Some (marketAnalysisComplete h now st)"
| "fire h now n CbHubAssigned st = Some (hubAssigned h now st)"
| "fire h now n CbEscrowCreated st = Some (escrowCreated h now st)"
| "fire h now n CbShipmentStatus st = Some (shipmentStatus now st)"
| "fire h now n CbDeliveryCoordinated st = Some (deliveryCoordinated h now st)"
| "fire h now n CbReceiptConfirmed st = Some (receiptConfirmed h now st)"
| "fire h now n CbPaymentProcessed st = Some (paymentProcessed h now st)"
| "fire h now n CbEscrowReleased st = Some (escrowReleased h now st)"
| "fire h now n CbAutomation st =
     (if autoProgressEnabled st then analyzeCurrentStage h now n st else Some st)"

definition startAutomationTimer :: "engine \<Rightarrow> engine" where
  "startAutomationTimer st = setInterval CbAutomation 30000 st"

text \<open>
  The constructor: the stage is the deal group's status, \<^verbatim>\<open>NEGOTIATING\<close> when there is
  none; then the first analysis and the automation timer.
\<close>

definition new_engine :: "host \<Rightarrow> int \<Rightarrow> nat \<Rightarrow> deal_group \<Rightarrow> string \<Rightarrow> engine option" where
  "new_engine h now n dg role =
     (let st = \<lparr>dealGroup = dg, user_role = role,
                 currentStage = (case dg_status dg of None \<Rightarrow> ''NEGOTIATING''
                                 | Some s \<Rightarrow> if s = [] then ''NEGOTIATING'' else s),
                 stageHistory = [], pendingActions = [], autoProgressEnabled = True,
                 timers = [], notifications = [], draws = 0\<rparr>
      in map_option startAutomationTimer (analyzeCurrentStage h now n st))"

subsection \<open>The order of the stages\<close>









text \<open>How many stages follow a stage in the order.\<close>

definition stages_ahead :: "string \<Rightarrow> nat" where
  "stages_ahead s =
     (if s = ''NEGOTIATING'' then 4 else if s = ''ACCEPTED'' then 3
      else if s = ''IN_TRANSIT'' then 2 else if s = ''DELIVERED'' then 1 else 0)"


subsection \<open>Relations between the states before and after a run\<close>





subsection \<open>Engines to run\<close>








section \<open>Properties of the session store\<close>

text \<open>
  Claim C4.  After \<^verbatim>\<open>setUser(u, t)\<close> the store holds exactly the pair \<open>u\<close>, \<open>t\<close>, whatever
  it held before; after \<^verbatim>\<open>logout()\<close> both fields are \<^verbatim>\<open>null\<close>.  The state consists of
  these two fields and nothing else, so the equalities below determine it completely.
\<close>

theorem store_setUser_logout:
  "setUser u t s = \<lparr>user = u, token = t\<rparr>
   \<and> user (setUser u t s) = u \<and> token (setUser u t s) = t
   \<and> logout s = \<lparr>user = None, token = None\<rparr>
   \<and> logout (setUser u t s) = store_init"
  by (simp add: setUser_def logout_def store_init_def)


section \<open>Properties of the conversation context\<close>

lemma length_slice_last: "length (slice_last k xs) \<le> k"
  by (simp add: slice_last_def)

lemma length_addToContext: "length (addToContext ty d now ctx) \<le> 50"
  by (simp add: addToContext_def Let_def length_slice_last)

lemma addToContext_slice:
  "addToContext ty d now ctx = slice_last 50 (ctx @ [\<lparr>ce_type = ty, ce_data = d, ce_timestamp = now\<rparr>])"
  by (simp add: addToContext_def Let_def slice_last_def)

lemma slice_last_snoc:
  "0 < k \<Longrightarrow> slice_last k (slice_last k xs @ [x]) = slice_last k (xs @ [x])"
  by (cases "k \<le> length xs") (auto simp add: slice_last_def Suc_diff_le)

lemma add_all_slice:
  "add_all es (slice_last 50 xs) = slice_last 50 (xs @ map entry_of es)"
proof (induction es arbitrary: xs)
  case Nil
  show ?case by (simp add: add_all_def slice_last_def)
next
  case (Cons e es)
  obtain ty d now where e: "e = (ty, d, now)" by (cases e) auto
  have "add_all (e # es) (slice_last 50 xs)
        = add_all es (addToContext ty d now (slice_last 50 xs))"
    by (simp add: add_all_def e)
  also have "addToContext ty d now (slice_last 50 xs) = slice_last 50 (xs @ [entry_of e])"
    by (simp add: addToContext_slice slice_last_snoc entry_of_def e)
  also have "add_all es (slice_last 50 (xs @ [entry_of e])) = slice_last 50 ((xs @ [entry_of e]) @ map entry_of es)"
    by (rule Cons.IH)
  finally show ?case by simp
qed

lemma length_agent_step: "length ctx \<le> 50 \<Longrightarrow> length (agent_step ctx op) \<le> 50"
  by (cases op)
     (simp_all add: length_addToContext generateStageGuidance_def processUserMessage_def Let_def
        split: option.splits)

lemma length_foldl_agent_step:
  "length ctx \<le> 50 \<Longrightarrow> length (foldl agent_step ctx ops) \<le> 50"
  by (induction ops arbitrary: ctx) (simp_all add: length_agent_step)

lemma drop_addToContext:
  "addToContext ty d now ctx
     = drop (Suc (length ctx) - 50) (ctx @ [\<lparr>ce_type = ty, ce_data = d, ce_timestamp = now\<rparr>])"
  by (simp add: addToContext_slice slice_last_def)

lemma last_addToContext:
  "last (addToContext ty d now ctx) = \<lparr>ce_type = ty, ce_data = d, ce_timestamp = now\<rparr>"
  by (simp add: drop_addToContext)

text \<open>
  Claim C9.  Whatever the context was, after \<^verbatim>\<open>addToContext\<close> it has at most 50 entries:
  it is the old entries followed by the new one, with as many of the oldest dropped as
  exceed 50, so its last entry is the new one.  Starting from the empty context of the
  constructor, after any number of calls it is exactly the 50 most recently added
  entries, in the order they were added (all of them while there are fewer).  After any
  sequence of operations of the agent the context has at most 50 entries.
\<close>

theorem context_bounded:
  "length (addToContext ty d now ctx) \<le> 50
   \<and> addToContext ty d now ctx
       = drop (Suc (length ctx) - 50) (ctx @ [\<lparr>ce_type = ty, ce_data = d, ce_timestamp = now\<rparr>])
   \<and> last (addToContext ty d now ctx) = \<lparr>ce_type = ty, ce_data = d, ce_timestamp = now\<rparr>
   \<and> add_all es [] = drop (length es - 50) (map entry_of es)
   \<and> length (add_all es []) = min 50 (length es)
   \<and> length (agent_run ops) \<le> 50"
proof -
  have "add_all es (slice_last 50 []) = slice_last 50 ([] @ map entry_of es)"
    by (rule add_all_slice)
  then have a: "add_all es [] = drop (length es - 50) (map entry_of es)"
    by (simp add: slice_last_def)
  have b: "length (add_all es []) = min 50 (length es)"
    unfolding a by simp
  have c: "length (agent_run ops) \<le> 50"
    unfolding agent_run_def by (rule length_foldl_agent_step) simp
  show ?thesis
    by (intro conjI) (rule length_addToContext drop_addToContext last_addToContext a b c)+
qed

text \<open>
  After 51 calls the very first entry is gone and the 50 later ones remain; one more
  call drops the oldest of these and puts the new entry last.
\<close>

theorem context_bounded_witness:
  "length example_entries = 51
   \<and> add_all example_entries []
       = replicate 50 \<lparr>ce_type = ''stage_guidance'', ce_data = GuidanceData ''ACCEPTED'' ''later'',
                        ce_timestamp = ''t1''\<rparr>
   \<and> addToContext ''user_message'' (UserMessageData \<lparr>um_id = ''1'', um_content = Some ''price?''\<rparr>) ''t2''
         (add_all example_entries [])
       = replicate 49 \<lparr>ce_type = ''stage_guidance'', ce_data = GuidanceData ''ACCEPTED'' ''later'',
                        ce_timestamp = ''t1''\<rparr>
         @ [\<lparr>ce_type = ''user_message'',
              ce_data = UserMessageData \<lparr>um_id = ''1'', um_content = Some ''price?''\<rparr>,
              ce_timestamp = ''t2''\<rparr>]"
proof -
  have l: "length example_entries = 51"
    by (simp add: example_entries_def)
  have a: "add_all example_entries []
       = replicate 50 \<lparr>ce_type = ''stage_guidance'', ce_data = GuidanceData ''ACCEPTED'' ''later'',
                        ce_timestamp = ''t1''\<rparr>"
    using context_bounded [of "''x''" "GuidanceData [] []" "''y''" "[]" example_entries "[]"]
    by (simp add: l) (simp add: example_entries_def entry_of_def)
  have r: "replicate 50 x = x # replicate 49 x" for x :: ctx_entry
    by (simp add: numeral_eq_Suc)
  show ?thesis
    using context_bounded [of "''user_message''"
            "UserMessageData \<lparr>um_id = ''1'', um_content = Some ''price?''\<rparr>" "''t2''"
            "add_all example_entries []" "[]" "[]"]
    by (simp add: l a r)
qed


section \<open>Properties of the request helper\<close>

lemma join_item_JStr: "map (join_item sn \<circ> JStr) ms = ms"
  by (induction ms) simp_all

lemma flat_field_errors:
  "flat (map (snd \<circ> (\<lambda>(k, msgs). (k, JArr (map JStr msgs)))) kvs) = map JStr (all_messages kvs)"
  by (induction kvs) (auto simp: flat_def all_messages_def)

lemma error_message_field_errors:
  "error_message sn (field_errors kvs)
     = Error (or_else (js_join '' '' (all_messages kvs)) ''An API error occurred.'')"
  by (simp add: error_message_def field_errors_def flat_field_errors array_join_def join_item_JStr)

lemma authFetch_not_ok:
  "net url (build_config tok opts) = Inr r \<Longrightarrow> \<not> ok r \<Longrightarrow>
   snd (authFetch sn net url tok opts)
     = (case json_body r of
          None \<Rightarrow> Inl (Error (''HTTP error! status: '' @ showNat (status r)))
        | Some d \<Rightarrow> Inl (error_message sn d))"
  by (simp add: authFetch_def Let_def split: option.splits)

text \<open>
  Claim C1, amended.  For a response that is not 2xx: when the body parses to an object of
  fields with lists of messages and the messages joined by single spaces give a
  non-empty text, the call rejects with exactly that text as message (the messages of
  all fields, in order); when the body does not parse as JSON, it rejects with
  \<^verbatim>\<open>HTTP error! status: \<close> followed by the status code.
\<close>

theorem authFetch_error_message:
  "net url (build_config tok opts) = Inr r \<Longrightarrow> \<not> ok r \<Longrightarrow>
   (json_body r = Some (field_errors kvs) \<longrightarrow> js_join '' '' (all_messages kvs) \<noteq> [] \<longrightarrow>
      snd (authFetch sn net url tok opts) = Inl (Error (js_join '' '' (all_messages kvs))))
   \<and> (json_body r = None \<longrightarrow>
      snd (authFetch sn net url tok opts) = Inl (Error (''HTTP error! status: '' @ showNat (status r))))"
  by (simp add: authFetch_not_ok error_message_field_errors or_else_def)

lemma showNat_400: "showNat 400 = ''400''"
  by (simp add: showNat.simps)

text \<open>
  The example of the specification (status 400, body \<^verbatim>\<open>{"field": ["msg1","msg2"]}\<close>),
  a status 400 whose body is not JSON, and a body with two fields of two messages each.
\<close>

theorem authFetch_error_message_witness:
  "snd (authFetch showInt (always \<lparr>status = 400, json_body = Some (field_errors [(''field'', [''msg1'', ''msg2''])])\<rparr>)
          ''/api/deals/my-polls/'' ''abc'' no_options)
     = Inl (Error ''msg1 msg2'')
   \<and> snd (authFetch showInt (always \<lparr>status = 400, json_body = None\<rparr>) ''/api/deals/my-polls/'' ''abc'' no_options)
     = Inl (Error ''HTTP error! status: 400'')
   \<and> snd (authFetch showInt
          (always \<lparr>status = 400,
                    json_body = Some (field_errors [(''name'', [''a'', ''b'']), (''email'', [''c'', ''d''])])\<rparr>)
          ''/api/deals/my-polls/'' ''abc'' no_options)
     = Inl (Error ''a b c d'')"
  using authFetch_error_message [of "always \<lparr>status = 400, json_body = Some (field_errors [(''field'', [''msg1'', ''msg2''])])\<rparr>"
          "''/api/deals/my-polls/''" "''abc''" no_options _ "[(''field'', [''msg1'', ''msg2''])]" showInt]
        authFetch_error_message [of "always \<lparr>status = 400, json_body = None\<rparr>"
          "''/api/deals/my-polls/''" "''abc''" no_options _ "[]" showInt]
        authFetch_error_message [of "always \<lparr>status = 400,
                    json_body = Some (field_errors [(''name'', [''a'', ''b'']), (''email'', [''c'', ''d''])])\<rparr>"
          "''/api/deals/my-polls/''" "''abc''" no_options _ "[(''name'', [''a'', ''b'']), (''email'', [''c'', ''d''])]" showInt]
  by (simp add: always_def ok_def all_messages_def showNat_400)

text \<open>
  Claim C1 as stated fails for the body \<^verbatim>\<open>{}\<close>: the joined messages are the empty text,
  but the message of the error is the fallback text.
\<close>

theorem authFetch_empty_errors_counterexample:
  "snd (authFetch showInt (always \<lparr>status = 400, json_body = Some (field_errors [])\<rparr>) ''/api/deals/my-polls/'' ''abc'' no_options)
     = Inl (Error ''An API error occurred.'')
   \<and> js_join '' '' (all_messages []) = []"
  by (simp add: authFetch_def Let_def always_def ok_def error_message_field_errors or_else_def all_messages_def)


text \<open>
  Claim C10.  A response that is not 2xx never makes the call resolve: the result is a
  rejection.  When the body parses to an object whose values, flattened and joined by
  spaces, give the empty text, the message is \<^verbatim>\<open>An API error occurred.\<close>
\<close>

theorem authFetch_not_ok_rejects:
  "net url (build_config tok opts) = Inr r \<Longrightarrow> \<not> ok r \<Longrightarrow>
   (\<exists>e. snd (authFetch sn net url tok opts) = Inl e)
   \<and> (\<forall>kvs. json_body r = Some (JObj kvs) \<longrightarrow> array_join sn '' '' (flat (map snd kvs)) = [] \<longrightarrow>
          snd (authFetch sn net url tok opts) = Inl (Error ''An API error occurred.''))"
  by (simp add: authFetch_not_ok error_message_def or_else_def split: option.splits)

text \<open>The bodies \<^verbatim>\<open>{}\<close> and \<^verbatim>\<open>{"detail": [], "code": []}\<close>.\<close>

theorem authFetch_not_ok_rejects_witness:
  "snd (authFetch showInt (always \<lparr>status = 500, json_body = Some (JObj [])\<rparr>) ''/api/notifications/my/'' ''abc'' no_options)
     = Inl (Error ''An API error occurred.'')
   \<and> snd (authFetch showInt (always \<lparr>status = 404, json_body = Some (JObj [(''detail'', JArr []), (''code'', JArr [])])\<rparr>)
          ''/api/notifications/my/'' ''abc'' no_options)
     = Inl (Error ''An API error occurred.'')"
  using authFetch_not_ok_rejects [of "always \<lparr>status = 500, json_body = Some (JObj [])\<rparr>"
          "''/api/notifications/my/''" "''abc''" no_options _ showInt]
        authFetch_not_ok_rejects [of "always \<lparr>status = 404, json_body = Some (JObj [(''detail'', JArr []), (''code'', JArr [])])\<rparr>"
          "''/api/notifications/my/''" "''abc''" no_options _ showInt]
  by (simp add: always_def ok_def array_join_def flat_def)

text \<open>
  Claim C5 as stated fails when the caller's own headers contain an
  \<^verbatim>\<open>Authorization\<close> entry: that entry is sent, not \<^verbatim>\<open>Token abc\<close>.
\<close>

theorem authFetch_authorization_counterexample:
  "cfg_headers (build_config ''abc'' (form_post [] [''Authorization'' \<mapsto> ''Bearer xyz''])) ''Authorization''
     = Some ''Bearer xyz''
   \<and> fst (authFetch showInt (always \<lparr>status = 204, json_body = None\<rparr>) ''/api/products/list-product/'' ''abc''
          (form_post [] [''Authorization'' \<mapsto> ''Bearer xyz'']))
     = [EvFetch ''/api/products/list-product/'' (build_config ''abc'' (form_post [] [''Authorization'' \<mapsto> ''Bearer xyz'']))]"
  by (simp add: authFetch_def Let_def always_def ok_def build_config_def form_post_def)

text \<open>
  Claim C5, amended.  Every call issues its request with the configuration built from
  the token and the options.  The default headers contain \<^verbatim>\<open>Authorization: Token <token>\<close>;
  they contain no \<^verbatim>\<open>Content-Type\<close> when the body is a \<^verbatim>\<open>FormData\<close> instance and
  \<^verbatim>\<open>Content-Type: application/json\<close> otherwise.  The headers sent are the defaults
  overridden by the caller's headers, so the request carries \<^verbatim>\<open>Authorization: Token <token>\<close>
  unless the caller supplies an \<^verbatim>\<open>Authorization\<close> header of its own, and likewise for
  \<^verbatim>\<open>Content-Type\<close>.
\<close>

theorem authFetch_headers:
  "(\<exists>evs. fst (authFetch sn net url tok opts) = EvFetch url (build_config tok opts) # evs)
   \<and> defaultHeaders tok opts ''Authorization'' = Some (''Token '' @ tok)
   \<and> defaultHeaders tok opts ''Content-Type''
        = (if isFormData opts then None else Some ''application/json'')
   \<and> cfg_headers (build_config tok opts) = defaultHeaders tok opts ++ caller_headers opts
   \<and> (caller_headers opts ''Authorization'' = None \<longrightarrow>
        cfg_headers (build_config tok opts) ''Authorization'' = Some (''Token '' @ tok))
   \<and> (caller_headers opts ''Content-Type'' = None \<longrightarrow>
        cfg_headers (build_config tok opts) ''Content-Type''
          = (if isFormData opts then None else Some ''application/json''))"
proof -
  have ev: "\<exists>evs. fst (authFetch sn net url tok opts) = EvFetch url (build_config tok opts) # evs"
    by (simp add: authFetch_def Let_def split: sum.splits option.splits)
  have d1: "defaultHeaders tok opts ''Authorization'' = Some (''Token '' @ tok)"
    by (simp add: defaultHeaders_def)
  have d2: "defaultHeaders tok opts ''Content-Type''
        = (if isFormData opts then None else Some ''application/json'')"
    by (simp add: defaultHeaders_def map_add_def)
  have c: "cfg_headers (build_config tok opts) = defaultHeaders tok opts ++ caller_headers opts"
    by (simp add: build_config_def caller_headers_def)
  show ?thesis
    using ev d1 d2 by (simp add: c map_add_def)
qed

text \<open>A JSON POST and a multipart POST with the token \<^verbatim>\<open>abc\<close>.\<close>

theorem authFetch_headers_witness:
  "cfg_headers (build_config ''abc'' (json_post ''{}'')) ''Authorization'' = Some ''Token abc''
   \<and> cfg_headers (build_config ''abc'' (json_post ''{}'')) ''Content-Type'' = Some ''application/json''
   \<and> cfg_headers (build_config ''abc'' (form_post [(''crop_name'', ''Wheat'')] Map.empty)) ''Content-Type'' = None"
  using authFetch_headers [of showInt "always \<lparr>status = 204, json_body = None\<rparr>" "''/api/''" "''abc''" "json_post ''{}''"]
        authFetch_headers [of showInt "always \<lparr>status = 204, json_body = None\<rparr>" "''/api/''" "''abc''" "form_post [(''crop_name'', ''Wheat'')] Map.empty"]
  by (auto simp add: caller_headers_def json_post_def form_post_def isFormData_def)

text \<open>
  Claim C6 as stated fails for a status 200 whose body is not valid JSON: the call reads
  the body and rejects.
\<close>

theorem authFetch_unparsable_counterexample:
  "ok \<lparr>status = 200, json_body = None\<rparr>
   \<and> authFetch showInt (always \<lparr>status = 200, json_body = None\<rparr>) ''/api/deals/my-groups/'' ''abc'' no_options
     = ([EvFetch ''/api/deals/my-groups/'' (build_config ''abc'' no_options), EvJson], Inl SyntaxError)"
  by (simp add: authFetch_def Let_def always_def ok_def)

text \<open>
  Claim C6, amended.  For a 2xx response with status 204 the call resolves to \<^verbatim>\<open>null\<close>
  and the only event is the request: the body is never read.  For any other 2xx response
  the body is read; the call resolves to the parsed value when the body is valid JSON and
  rejects with the parse error when it is not.
\<close>

theorem authFetch_success:
  "net url (build_config tok opts) = Inr r \<Longrightarrow> ok r \<Longrightarrow>
   (status r = 204 \<longrightarrow>
      authFetch sn net url tok opts = ([EvFetch url (build_config tok opts)], Inr JNull))
   \<and> (status r \<noteq> 204 \<longrightarrow>
        (\<forall>j. json_body r = Some j \<longrightarrow>
           authFetch sn net url tok opts = ([EvFetch url (build_config tok opts), EvJson], Inr j))
        \<and> (json_body r = None \<longrightarrow>
           authFetch sn net url tok opts = ([EvFetch url (build_config tok opts), EvJson], Inl SyntaxError)))"
  by (simp add: authFetch_def Let_def)

text \<open>Status 204, status 200 with the body \<^verbatim>\<open>["a"]\<close>, status 201 with an empty body.\<close>

theorem authFetch_success_witness:
  "authFetch showInt (always \<lparr>status = 204, json_body = None\<rparr>) ''/api/x/'' ''abc'' no_options
     = ([EvFetch ''/api/x/'' (build_config ''abc'' no_options)], Inr JNull)
   \<and> authFetch showInt (always \<lparr>status = 200, json_body = Some (JArr [JStr ''a''])\<rparr>) ''/api/x/'' ''abc'' no_options
     = ([EvFetch ''/api/x/'' (build_config ''abc'' no_options), EvJson], Inr (JArr [JStr ''a'']))
   \<and> authFetch showInt (always \<lparr>status = 201, json_body = None\<rparr>) ''/api/x/'' ''abc'' no_options
     = ([EvFetch ''/api/x/'' (build_config ''abc'' no_options), EvJson], Inl SyntaxError)"
  using authFetch_success [of "always \<lparr>status = 204, json_body = None\<rparr>" "''/api/x/''" "''abc''" no_options _ showInt]
        authFetch_success [of "always \<lparr>status = 200, json_body = Some (JArr [JStr ''a''])\<rparr>" "''/api/x/''" "''abc''" no_options _ showInt]
        authFetch_success [of "always \<lparr>status = 201, json_body = None\<rparr>" "''/api/x/''" "''abc''" no_options _ showInt]
  by (simp add: always_def ok_def)


section \<open>Properties of the merged message list\<close>

lemma mset_insert_by: "mset (insert_by cmp x ys) = add_mset x (mset ys)"
  by (induction ys) simp_all

lemma mset_sort_by: "mset (sort_by cmp xs) = mset xs"
  unfolding sort_by_def by (induction xs) (simp_all add: mset_insert_by)

lemma set_insert_by: "set (insert_by cmp x ys) = insert x (set ys)"
  by (induction ys) auto

lemma set_sort_by: "set (sort_by cmp xs) = set xs"
  unfolding sort_by_def by (induction xs) (simp_all add: set_insert_by)

lemma not_later_compare:
  "has_time pd a \<Longrightarrow> has_time pd b \<Longrightarrow> not_later pd a b = (compare_time pd a b \<le> 0)"
  by (auto simp: has_time_def not_later_def compare_time_def)

lemma not_later_total:
  "has_time pd a \<Longrightarrow> has_time pd b \<Longrightarrow> \<not> not_later pd a b \<Longrightarrow> not_later pd b a"
  by (auto simp: has_time_def not_later_def)

lemma not_later_trans:
  "not_later pd a b \<Longrightarrow> not_later pd b c \<Longrightarrow> not_later pd a c"
  by (auto simp: not_later_def split: option.splits)

lemma sorted_insert_by:
  "has_time pd x \<Longrightarrow> \<forall>y \<in> set ys. has_time pd y \<Longrightarrow> sorted_wrt (not_later pd) ys
   \<Longrightarrow> sorted_wrt (not_later pd) (insert_by (compare_time pd) x ys)"
proof (induction ys)
  case Nil
  show ?case by simp
next
  case (Cons y ys)
  show ?case
  proof (cases "compare_time pd x y \<le> 0")
    case True
    from Cons.prems have hx: "has_time pd x" and hy: "has_time pd y"
      by simp_all
    have xy: "not_later pd x y"
      using True not_later_compare [OF hx hy] by simp
    have "\<forall>z \<in> set ys. not_later pd x z"
      using Cons.prems(3) xy by (auto intro: not_later_trans)
    with True xy Cons.prems(3) show ?thesis by simp
  next
    case False
    from Cons.prems have hx: "has_time pd x" and hy: "has_time pd y"
      by simp_all
    have "\<not> not_later pd x y"
      using False not_later_compare [OF hx hy] by simp
    then have yx: "not_later pd y x"
      by (rule not_later_total [OF hx hy])
    have "sorted_wrt (not_later pd) (insert_by (compare_time pd) x ys)"
      using Cons by simp
    with False yx Cons.prems(3) show ?thesis
      by (auto simp: set_insert_by)
  qed
qed

lemma sorted_sort_by:
  "\<forall>x \<in> set xs. has_time pd x \<Longrightarrow> sorted_wrt (not_later pd) (sort_by (compare_time pd) xs)"
proof (induction xs)
  case Nil
  show ?case by (simp add: sort_by_def)
next
  case (Cons x xs)
  have "set (foldr (insert_by (compare_time pd)) xs []) = set xs"
    using set_sort_by [of "compare_time pd" xs] by (simp add: sort_by_def)
  with Cons show ?case
    by (simp add: sort_by_def sorted_insert_by)
qed

lemma ids_allMessages:
  "map m_id (allMessages cs hs)
     = map (\<lambda>c. ''chat_'' @ template (c_id c)) cs
       @ map (\<lambda>h. ''history_'' @ template (h_id h)) (filter shown_in_room hs)"
  by (simp add: allMessages_def of_chat_def of_history_def)

lemma compare_time_tie:
  "compare_time pd (a\<lparr>m_timestamp := t\<rparr>) (b\<lparr>m_timestamp := t\<rparr>) = 0"
  by (simp add: compare_time_def split: option.splits)

lemma filter_insert_by:
  "filter (\<lambda>m. time_value pd (m_timestamp m) = Some t) (insert_by (compare_time pd) x ys)
     = filter (\<lambda>m. time_value pd (m_timestamp m) = Some t) (x # ys)"
proof (induction ys)
  case Nil
  show ?case by simp
next
  case (Cons y ys)
  show ?case
  proof (cases "compare_time pd x y \<le> 0")
    case True
    then show ?thesis by simp
  next
    case False
    then have "time_value pd (m_timestamp x) \<noteq> time_value pd (m_timestamp y)"
      by (auto simp: compare_time_def split: option.splits)
    with False Cons show ?thesis by auto
  qed
qed

lemma filter_sort_by:
  "filter (\<lambda>m. time_value pd (m_timestamp m) = Some t) (sort_by (compare_time pd) xs)
     = filter (\<lambda>m. time_value pd (m_timestamp m) = Some t) xs"
  unfolding sort_by_def by (induction xs) (simp_all add: filter_insert_by)

lemma not_later_the:
  "not_later pd a b \<Longrightarrow> the (time_value pd (m_timestamp a)) \<le> the (time_value pd (m_timestamp b))"
  by (auto simp: not_later_def split: option.splits)

lemma sorted_times:
  "sorted_wrt (not_later pd) xs \<Longrightarrow> sorted (map (\<lambda>m. the (time_value pd (m_timestamp m))) xs)"
  unfolding sorted_map by (erule sorted_wrt_mono_rel [rotated]) (rule not_later_the)

lemma prefixes_differ: "''chat_'' @ x \<noteq> ''history_'' @ y"
  by simp

text \<open>
  Claim C2, amended.  For every pair of lists: the merged entries have the ids
  \<^verbatim>\<open>chat_\<close> followed by the original id for the chat entries and \<^verbatim>\<open>history_\<close> followed by
  the original id for the history entries of type \<^verbatim>\<open>negotiation_message\<close> or \<^verbatim>\<open>poll\<close>
  (no others are taken); an id with the one prefix never equals an id with the other;
  the list shown is a rearrangement of these entries; and the comparator returns 0 for
  any two entries with the same timestamp, whatever else they contain, so it holds no
  rule to order them.  When every merged entry's timestamp denotes a time (a date string
  that parses, or a number), the list shown is in non-decreasing order of time, and
  entries of equal time keep the order in which they were merged.
\<close>

theorem mergeMessages_ids_sorted:
  "map m_id (allMessages chatMessages allHistoryMessages)
     = map (\<lambda>c. ''chat_'' @ template (c_id c)) chatMessages
       @ map (\<lambda>h. ''history_'' @ template (h_id h))
           (filter (\<lambda>h. h_type h = Str ''negotiation_message'' \<or> h_type h = Str ''poll'')
              allHistoryMessages)
   \<and> ''chat_'' @ template i \<noteq> ''history_'' @ template j
   \<and> mset (mergeMessages pd chatMessages allHistoryMessages)
       = mset (allMessages chatMessages allHistoryMessages)
   \<and> compare_time pd (a\<lparr>m_timestamp := t\<rparr>) (b\<lparr>m_timestamp := t\<rparr>) = 0
   \<and> ((\<forall>m \<in> set (allMessages chatMessages allHistoryMessages). time_value pd (m_timestamp m) \<noteq> None)
        \<longrightarrow> sorted (map (\<lambda>m. the (time_value pd (m_timestamp m)))
                      (mergeMessages pd chatMessages allHistoryMessages))
          \<and> sorted_wrt (not_later pd) (mergeMessages pd chatMessages allHistoryMessages)
          \<and> filter (\<lambda>m. time_value pd (m_timestamp m) = Some u)
                (mergeMessages pd chatMessages allHistoryMessages)
              = filter (\<lambda>m. time_value pd (m_timestamp m) = Some u)
                  (allMessages chatMessages allHistoryMessages))"
proof -
  have ids: "map m_id (allMessages chatMessages allHistoryMessages)
     = map (\<lambda>c. ''chat_'' @ template (c_id c)) chatMessages
       @ map (\<lambda>h. ''history_'' @ template (h_id h))
           (filter (\<lambda>h. h_type h = Str ''negotiation_message'' \<or> h_type h = Str ''poll'')
              allHistoryMessages)"
    using ids_allMessages [of chatMessages allHistoryMessages]
    by (simp add: shown_in_room_def [abs_def])
  have perm: "mset (mergeMessages pd chatMessages allHistoryMessages)
       = mset (allMessages chatMessages allHistoryMessages)"
    by (simp add: mergeMessages_def mset_sort_by)
  have stable: "filter (\<lambda>m. time_value pd (m_timestamp m) = Some u)
                (mergeMessages pd chatMessages allHistoryMessages)
              = filter (\<lambda>m. time_value pd (m_timestamp m) = Some u)
                  (allMessages chatMessages allHistoryMessages)"
    by (simp add: mergeMessages_def filter_sort_by)
  have ordered: "sorted_wrt (not_later pd) (mergeMessages pd chatMessages allHistoryMessages)"
    if "\<forall>m \<in> set (allMessages chatMessages allHistoryMessages). time_value pd (m_timestamp m) \<noteq> None"
    unfolding mergeMessages_def using that by (intro sorted_sort_by) (simp add: has_time_def)
  show ?thesis
    using ids prefixes_differ perm compare_time_tie stable ordered sorted_times
    by (intro conjI impI) blast+
qed

lemma showNat_digits:
  "showNat 7 = ''7''" "showNat 8 = ''8''" "showNat (Suc 0) = ''1''" "showNat 2 = ''2''" "showNat 3 = ''3''"
  by (simp_all add: showNat.simps)

lemmas merge_defs =
  mergeMessages_def sort_by_def allMessages_def of_chat_def of_history_def shown_in_room_def
  compare_time_def example_chat_def example_history_def example_other_def example_reply_def
  example_parse_def chat_at_def showInt_def showNat_digits

text \<open>
  A chat entry of 10:00, and from the history an entry of another type, a negotiation
  message of 10:00 and a poll of 09:00: the other type is left out, the poll comes first,
  and the two entries of 10:00 stay in merge order, chat entry first.
\<close>

theorem mergeMessages_ids_sorted_witness:
  "list_all (\<lambda>m. time_value example_parse (m_timestamp m) \<noteq> None)
     (allMessages [example_chat] [example_other, example_reply, example_history])
   \<and> map m_id (mergeMessages example_parse [example_chat] [example_other, example_reply, example_history])
       = [''history_7'', ''chat_7'', ''history_8'']
   \<and> map (\<lambda>m. the (time_value example_parse (m_timestamp m)))
         (mergeMessages example_parse [example_chat] [example_other, example_reply, example_history])
       = [1704099600000, 1704103200000, 1704103200000]
   \<and> sorted (map (\<lambda>m. the (time_value example_parse (m_timestamp m)))
         (mergeMessages example_parse [example_chat] [example_other, example_reply, example_history]))"
proof -
  have h: "\<forall>m \<in> set (allMessages [example_chat] [example_other, example_reply, example_history]).
             time_value example_parse (m_timestamp m) \<noteq> None"
    by (simp add: merge_defs)
  have ids: "map m_id (mergeMessages example_parse [example_chat] [example_other, example_reply, example_history])
       = [''history_7'', ''chat_7'', ''history_8'']"
    by (simp add: merge_defs)
  have times: "map (\<lambda>m. the (time_value example_parse (m_timestamp m)))
         (mergeMessages example_parse [example_chat] [example_other, example_reply, example_history])
       = [1704099600000, 1704103200000, 1704103200000]"
    by (simp add: merge_defs)
  have "sorted (map (\<lambda>m. the (time_value example_parse (m_timestamp m)))
         (mergeMessages example_parse [example_chat] [example_other, example_reply, example_history]))"
    using h mergeMessages_ids_sorted [of "[example_chat]" "[example_other, example_reply, example_history]"
            Null Null example_parse] by blast
  then show ?thesis
    using h ids times by (simp add: list_all_iff)
qed

text \<open>
  Claim C2 as stated fails when a timestamp is missing: for chat entries of 10:00, without
  \<^verbatim>\<open>created_at\<close>, and of 09:00, the comparator's result against the middle entry is
  \<^verbatim>\<open>NaN\<close>, read as 0, and the list stays as it was, 10:00 before 09:00.
\<close>

theorem missing_timestamp_counterexample:
  "map m_id (mergeMessages example_parse
        [chat_at 1 (Str ''2024-01-01T10:00:00Z''), chat_at 2 Undefined, chat_at 3 (Str ''2024-01-01T09:00:00Z'')] [])
     = [''chat_1'', ''chat_2'', ''chat_3'']
   \<and> map (\<lambda>m. time_value example_parse (m_timestamp m)) (mergeMessages example_parse
        [chat_at 1 (Str ''2024-01-01T10:00:00Z''), chat_at 2 Undefined, chat_at 3 (Str ''2024-01-01T09:00:00Z'')] [])
     = [Some 1704103200000, None, Some 1704099600000]
   \<and> \<not> sorted_wrt (not_later example_parse) (mergeMessages example_parse
        [chat_at 1 (Str ''2024-01-01T10:00:00Z''), chat_at 2 Undefined, chat_at 3 (Str ''2024-01-01T09:00:00Z'')] [])"
  by (simp add: merge_defs not_later_def)


section \<open>Properties of the listing form\<close>

lemma authFetch_first_event:
  "\<exists>evs. fst (authFetch sn net url tok opts) = EvFetch url (build_config tok opts) # evs"
  by (simp add: authFetch_def Let_def split: sum.splits option.splits)

lemma handleSubmitListing_posts:
  "\<exists>cfg evs. fst (handleSubmitListing sn net pint api_base tok st)
               = EvFetch (api_base @ ''/api/products/list-product/'') cfg # evs
             \<and> cfg_method cfg = Some ''POST''"
proof -
  let ?opts = "form_post [(''crop_name'', selectedCrop st), (''quantity_kg'', pint (quantity st)),
                 (''grade'', selectedGrade st)] [''Authorization'' \<mapsto> ''Token '' @ tok]"
  let ?url = "api_base @ ''/api/products/list-product/''"
  obtain evs where evs: "fst (authFetch sn net ?url tok ?opts) = EvFetch ?url (build_config tok ?opts) # evs"
    using authFetch_first_event by blast
  have m: "cfg_method (build_config tok ?opts) = Some ''POST''"
    by (simp add: build_config_def form_post_def)
  show ?thesis
    using evs m by (auto simp: handleSubmitListing_def Let_def split: sum.splits)
qed

lemma empty_crop_invalid:
  "selectedCrop st = [] \<Longrightarrow> \<not> list_all (control_valid num) (listing_form st)"
  by (simp add: listing_form_def selected_value_def)

text \<open>
  Claim C7.  When the crop selection is empty, submitting the listing form issues no
  request at all and leaves the state as it is: the required \<^verbatim>\<open>select\<close> fails the
  browser's validation, so the handler never runs.  The blocking is the validation's
  alone: the handler, were it run on the same state, would send the POST to
  \<^verbatim>\<open>/api/products/list-product/\<close>.
\<close>

theorem empty_crop_blocked:
  "selectedCrop st = [] \<Longrightarrow>
     submit_listing_form sn net num pint api_base tok st = ([], st)
     \<and> (\<exists>cfg evs. fst (handleSubmitListing sn net pint api_base tok st)
                     = EvFetch (api_base @ ''/api/products/list-product/'') cfg # evs
                   \<and> cfg_method cfg = Some ''POST'')"
  using handleSubmitListing_posts [of sn net pint api_base tok st]
  by (simp add: submit_listing_form_def empty_crop_invalid)

text \<open>A form with quantity and grade filled in but no crop chosen.\<close>

theorem empty_crop_blocked_witness:
  "selectedCrop form_without_crop = []
   \<and> submit_listing_form showInt (always \<lparr>status = 201, json_body = Some JNull\<rparr>) example_num (\<lambda>s. s) [] ''abc''
        form_without_crop = ([], form_without_crop)"
proof -
  have h: "selectedCrop form_without_crop = []"
    by (simp add: form_without_crop_def)
  show ?thesis
    using h empty_crop_blocked [OF h, of showInt "always \<lparr>status = 201, json_body = Some JNull\<rparr>" example_num "\<lambda>s. s" "[]" "''abc''"]
    by simp
qed

text \<open>With a crop chosen the same form is sent, and a success reloads the two lists.\<close>

lemma filled_form_posts:
  "fst (submit_listing_form sn (always \<lparr>status = 201, json_body = Some JNull\<rparr>) example_num (\<lambda>s. s) [] ''abc'' form_filled)
   = [EvFetch ''/api/products/list-product/''
        (build_config ''abc'' (form_post [(''crop_name'', ''Wheat''), (''quantity_kg'', ''100''), (''grade'', ''FAQ'')]
            [''Authorization'' \<mapsto> ''Token abc''])),
      EvJson,
      EvFetch ''/api/products/crops/'' (build_config ''abc'' no_options), EvJson,
      EvFetch ''/api/products/my-listings/'' (build_config ''abc'' no_options), EvJson]"
  by (simp add: submit_listing_form_def listing_form_def selected_value_def grade_options_def
        form_filled_def form_without_crop_def example_num_def handleSubmitListing_def Let_def
        authFetch_def always_def ok_def fetchData_events_def)


section \<open>Properties of the stage engine\<close>



























lemma stages_ahead_le: "stages_ahead s \<le> 4"
  by (simp add: stages_ahead_def)
























text \<open>
  Claim C8.  The auto-action \<^verbatim>\<open>assign_logistics_hub\<close> only sets a timer of 1500 ms.  When
  the timer runs, it sets \<^verbatim>\<open>logistics_status\<close> to READY and \<^verbatim>\<open>assigned_hub\<close> to
  Central Hub - Mumbai and adds a pending action HUB_ASSIGNED for the hub Central Hub -
  Mumbai in Mumbai; these values are the same for any two engine states, whatever
  their deal groups hold.
\<close>

theorem assign_logistics_hub_hardcoded:
  "auto_action h now progress ''assign_logistics_hub'' st
     = Some (st\<lparr>timers := timers st @ [\<lparr>t_delay = 1500, t_repeat = False, t_callback = CbHubAssigned\<rparr>]\<rparr>)
   \<and> executeAutoActions h now progress [''assign_logistics_hub''] st
     = Some (st\<lparr>timers := timers st @ [\<lparr>t_delay = 1500, t_repeat = False, t_callback = CbHubAssigned\<rparr>]\<rparr>)
   \<and> fire h now n CbHubAssigned st
     = Some (st\<lparr>dealGroup := (dealGroup st)\<lparr>logistics_status := Some ''READY'',
                                              assigned_hub := Some ''Central Hub - Mumbai''\<rparr>,
                 pendingActions := pendingActions st @
                   [\<lparr>pa_type = ''HUB_ASSIGNED'', pa_data = HubData ''Central Hub - Mumbai'' ''Mumbai'',
                     pa_priority = ''high'', pa_message = ''Logistics hub assigned: Central Hub - Mumbai'',
                     pa_id = of_int now + random h (draws st), pa_timestamp = iso_string h now,
                     pa_status = ''pending''\<rparr>],
                 notifications := notifications st @
                   [ActionRequired
                     \<lparr>pa_type = ''HUB_ASSIGNED'', pa_data = HubData ''Central Hub - Mumbai'' ''Mumbai'',
                      pa_priority = ''high'', pa_message = ''Logistics hub assigned: Central Hub - Mumbai'',
                      pa_id = of_int now + random h (draws st), pa_timestamp = iso_string h now,
                      pa_status = ''pending''\<rparr>],
                 draws := Suc (draws st)\<rparr>)
   \<and> logistics_status (dealGroup (hubAssigned h now st)) = logistics_status (dealGroup (hubAssigned h now st2))
   \<and> assigned_hub (dealGroup (hubAssigned h now st)) = assigned_hub (dealGroup (hubAssigned h now st2))
   \<and> pa_data (last (pendingActions (hubAssigned h now st))) = pa_data (last (pendingActions (hubAssigned h now st2)))"
proof -
  have a: "auto_action h now progress ''assign_logistics_hub'' st
     = Some (st\<lparr>timers := timers st @ [\<lparr>t_delay = 1500, t_repeat = False, t_callback = CbHubAssigned\<rparr>]\<rparr>)"
    by (simp add: auto_action_def assignLogisticsHub_def setTimeout_def)
  have b: "executeAutoActions h now progress [''assign_logistics_hub''] st
     = Some (st\<lparr>timers := timers st @ [\<lparr>t_delay = 1500, t_repeat = False, t_callback = CbHubAssigned\<rparr>]\<rparr>)"
    by (simp add: a)
  show ?thesis
    by (simp add: a b hubAssigned_def addPendingAction_def Let_def)
qed

end
